theory Spec2Isabelle
  imports Complex_Main "HOL-Library.Monad_Syntax" "HOL-Library.Product_Lexorder"
    "HOL-Library.Multiset"
begin

section \<open>The calendar-code calculator (class BaziCalculator)\<close>

text \<open>
  The source writes stems, branches and elements as one-character strings. They are
  modelled as datatypes whose constructors carry the romanised names, in the order of
  the source's lists: ten stems (\<open>tiangan\<close>), twelve branches (\<open>dizhi\<close>) and the
  five elements wood, fire, earth, metal, water (\<open>Mu, Huo, Tu, Jin, Shui\<close>).
\<close>

datatype tiangan_t = Jia | Yi | Bing | Ding | Wu_tg | Ji | Geng | Xin | Ren | Gui

datatype dizhi_t = Zi | Chou | Yin | Mao | Chen | Si | Wu_dz | Wei | Shen | You | Xu | Hai

datatype wuxing = Mu | Huo | Tu | Jin | Shui

definition tiangan :: "tiangan_t list" where
  "tiangan = [Jia, Yi, Bing, Ding, Wu_tg, Ji, Geng, Xin, Ren, Gui]"

definition dizhi :: "dizhi_t list" where
  "dizhi = [Zi, Chou, Yin, Mao, Chen, Si, Wu_dz, Wei, Shen, You, Xu, Hai]"

text \<open>
  The two element tables are Python dicts; a lookup is \<open>dict.get(key, '')\<close>, so the
  model returns an option and the caller tests it as the source tests the string.
\<close>

fun wuxing_tiangan :: "tiangan_t \<Rightarrow> wuxing option" where
  "wuxing_tiangan Jia = Some Mu"
| "wuxing_tiangan Yi = Some Mu"
| "wuxing_tiangan Bing = Some Huo"
| "wuxing_tiangan Ding = Some Huo"
| "wuxing_tiangan Wu_tg = Some Tu"
| "wuxing_tiangan Ji = Some Tu"
| "wuxing_tiangan Geng = Some Jin"
| "wuxing_tiangan Xin = Some Jin"
| "wuxing_tiangan Ren = Some Shui"
| "wuxing_tiangan Gui = Some Shui"

fun wuxing_dizhi :: "dizhi_t \<Rightarrow> wuxing option" where
  "wuxing_dizhi Zi = Some Shui"
| "wuxing_dizhi Chou = Some Tu"
| "wuxing_dizhi Yin = Some Mu"
| "wuxing_dizhi Mao = Some Mu"
| "wuxing_dizhi Chen = Some Tu"
| "wuxing_dizhi Si = Some Huo"
| "wuxing_dizhi Wu_dz = Some Huo"
| "wuxing_dizhi Wei = Some Tu"
| "wuxing_dizhi Shen = Some Jin"
| "wuxing_dizhi You = Some Jin"
| "wuxing_dizhi Xu = Some Tu"
| "wuxing_dizhi Hai = Some Shui"

text \<open>
  \<open>wuxing_shengke\<close>: for each element the element it generates (\<open>sheng\<close>), the one it
  overcomes (\<open>ke\<close>), the one that generates it (\<open>bei_sheng\<close>) and the one that
  overcomes it (\<open>bei_ke\<close>).
\<close>

record shengke =
  sheng :: wuxing
  ke :: wuxing
  bei_sheng :: wuxing
  bei_ke :: wuxing

fun wuxing_shengke :: "wuxing \<Rightarrow> shengke" where
  "wuxing_shengke Mu = \<lparr>sheng = Huo, ke = Tu, bei_sheng = Shui, bei_ke = Jin\<rparr>"
| "wuxing_shengke Huo = \<lparr>sheng = Tu, ke = Jin, bei_sheng = Mu, bei_ke = Shui\<rparr>"
| "wuxing_shengke Tu = \<lparr>sheng = Jin, ke = Shui, bei_sheng = Huo, bei_ke = Mu\<rparr>"
| "wuxing_shengke Jin = \<lparr>sheng = Shui, ke = Mu, bei_sheng = Tu, bei_ke = Huo\<rparr>"
| "wuxing_shengke Shui = \<lparr>sheng = Mu, ke = Huo, bei_sheng = Jin, bei_ke = Tu\<rparr>"

text \<open>
  Python list indexing: an index from \<open>-len\<close> to \<open>len - 1\<close> reads an element, any
  other index raises IndexError (\<open>None\<close>).
\<close>

definition py_index :: "'a list \<Rightarrow> int \<Rightarrow> 'a option" where
  "py_index xs i =
     (if 0 \<le> i \<and> i < int (length xs) then Some (xs ! nat i)
      else if - int (length xs) \<le> i \<and> i < 0 then Some (xs ! nat (int (length xs) + i))
      else None)"

text \<open>
  \<open>get_tiangan_dizhi\<close>: year 1900 is the base of the sixty-year cycle. Python's \<open>%\<close>
  with a positive modulus is the floor modulus, as \<open>mod\<close> on \<open>int\<close>.
\<close>

definition get_tiangan_dizhi :: "int \<Rightarrow> (tiangan_t \<times> dizhi_t) option" where
  "get_tiangan_dizhi year =
     (let base_year = 1900;
          offset = (year - base_year) mod 60;
          tiangan_index = offset mod 10;
          dizhi_index = offset mod 12
      in do {
        tg \<leftarrow> py_index tiangan tiangan_index;
        dz \<leftarrow> py_index dizhi dizhi_index;
        Some (tg, dz)
      })"

text \<open>
  A \<open>datetime\<close> value; only the four fields read by the calculator are kept. The result
  of \<open>calculate_bazi\<close> is a dict with fixed keys, modelled as a record; the four
  two-character entries \<open>year\<close>, \<open>month\<close>, \<open>day\<close>, \<open>hour\<close> of the dict are the pairs
  of the corresponding stem and branch fields and are read nowhere, so they are left out.
\<close>

record datetime =
  dt_year :: int
  dt_month :: int
  dt_day :: int
  dt_hour :: int

record bazi =
  year_tg :: tiangan_t
  year_dz :: dizhi_t
  month_tg :: tiangan_t
  month_dz :: dizhi_t
  day_tg :: tiangan_t
  day_dz :: dizhi_t
  hour_tg :: tiangan_t
  hour_dz :: dizhi_t

definition calculate_bazi :: "datetime \<Rightarrow> bazi option" where
  "calculate_bazi date = do {
     (y_tg, y_dz) \<leftarrow> get_tiangan_dizhi (dt_year date);
     m_tg \<leftarrow> py_index tiangan ((dt_month date - 1) mod 10);
     m_dz \<leftarrow> py_index dizhi ((dt_month date - 1) mod 12);
     d_tg \<leftarrow> py_index tiangan ((dt_day date - 1) mod 10);
     d_dz \<leftarrow> py_index dizhi ((dt_day date - 1) mod 12);
     h_tg \<leftarrow> py_index tiangan ((dt_hour date div 2) mod 10);
     h_dz \<leftarrow> py_index dizhi ((dt_hour date div 2) mod 12);
     Some \<lparr>year_tg = y_tg, year_dz = y_dz, month_tg = m_tg, month_dz = m_dz,
           day_tg = d_tg, day_dz = d_dz, hour_tg = h_tg, hour_dz = h_dz\<rparr>
   }"

text \<open>
  \<open>analyze_wuxing_strength\<close>. The counter dict is created with all five elements as
  keys and is only read with \<open>get(key, 0)\<close> afterwards, so it is a total function
  from elements to Python integers. Each of the two loops visits four fixed keys of the
  bazi dict (always present in a record), looks the symbol up and adds one to the
  element's count when the lookup is not the empty string.
\<close>

type_synonym wuxing_count = "wuxing \<Rightarrow> int"

definition count_one :: "wuxing option \<Rightarrow> wuxing_count \<Rightarrow> wuxing_count" where
  "count_one w c = (case w of None \<Rightarrow> c | Some e \<Rightarrow> c(e := c e + 1))"

definition analyze_wuxing_strength :: "bazi \<Rightarrow> wuxing_count" where
  "analyze_wuxing_strength b =
     (let c0 = (\<lambda>_. 0);
          c1 = fold (\<lambda>key c. count_one (wuxing_tiangan (key b)) c)
                 [year_tg, month_tg, day_tg, hour_tg] c0;
          c2 = fold (\<lambda>key c. count_one (wuxing_dizhi (key b)) c)
                 [year_dz, month_dz, day_dz, hour_dz] c1
      in c2)"

text \<open>\<open>get_wuxing_relationship\<close>: the six answers, in the order the source tests them.\<close>

datatype relationship = Tong | Sheng | Ke | BeiSheng | BeiKe | NoRelation

definition get_wuxing_relationship :: "wuxing \<Rightarrow> wuxing \<Rightarrow> relationship" where
  "get_wuxing_relationship wuxing1 wuxing2 =
     (if wuxing1 = wuxing2 then Tong
      else if sheng (wuxing_shengke wuxing1) = wuxing2 then Sheng
      else if ke (wuxing_shengke wuxing1) = wuxing2 then Ke
      else if bei_sheng (wuxing_shengke wuxing1) = wuxing2 then BeiSheng
      else if bei_ke (wuxing_shengke wuxing1) = wuxing2 then BeiKe
      else NoRelation)"

section \<open>The trading signal (class TradingStrategy)\<close>

datatype error = IndexError | KeyError | OverflowError | ValueError | ZeroDivisionError

text \<open>
  \<open>date - timedelta(days=1)\<close> on a \<open>datetime\<close>: the previous calendar day at the same
  hour. The standard library raises OverflowError below year 1 (\<open>None\<close>).
\<close>

definition is_leap :: "int \<Rightarrow> bool" where
  "is_leap y = (y mod 4 = 0 \<and> (y mod 100 \<noteq> 0 \<or> y mod 400 = 0))"

definition days_in_month :: "int \<Rightarrow> int \<Rightarrow> int" where
  "days_in_month y m =
     (if m = 2 then (if is_leap y then 29 else 28)
      else if m = 4 \<or> m = 6 \<or> m = 9 \<or> m = 11 then 30 else 31)"

definition minus_one_day :: "datetime \<Rightarrow> datetime option" where
  "minus_one_day t =
     (if 1 < dt_day t then Some (t\<lparr>dt_day := dt_day t - 1\<rparr>)
      else if 1 < dt_month t then
        Some (t\<lparr>dt_month := dt_month t - 1,
                dt_day := days_in_month (dt_year t) (dt_month t - 1)\<rparr>)
      else if 1 < dt_year t then
        Some (t\<lparr>dt_year := dt_year t - 1, dt_month := 12, dt_day := 31\<rparr>)
      else None)"

datatype signal = BUY | SELL | HOLD

text \<open>
  The dict returned by \<open>get_trading_signal\<close>. A reason is the formatted string
  "w generates t" in the source; the model keeps the pair of elements.
\<close>

record signal_info =
  signal :: signal
  confidence :: real
  strength :: int
  reason :: "(wuxing \<times> wuxing) list"
  current_bazi :: bazi
  current_wuxing :: wuxing_count
  symbol_wuxing :: wuxing_count

definition wuxing_list :: "wuxing list" where
  "wuxing_list = [Mu, Huo, Tu, Jin, Shui]"

text \<open>
  The scoring loops of \<open>get_trading_signal\<close>. The accumulator is the pair
  (\<open>signal_strength\<close>, \<open>signal_reason\<close>); \<open>score_target\<close> is the body of the inner
  loop, \<open>score_element\<close> the body of the outer loop.
\<close>

definition score_target ::
  "wuxing_count \<Rightarrow> wuxing \<Rightarrow> wuxing \<Rightarrow> int \<times> (wuxing \<times> wuxing) list
     \<Rightarrow> int \<times> (wuxing \<times> wuxing) list" where
  "score_target sym_wx wx target_wuxing acc =
     (if wx \<noteq> target_wuxing then
        (if get_wuxing_relationship wx target_wuxing = Sheng \<and> sym_wx target_wuxing > 0
         then (fst acc + 1, snd acc @ [(wx, target_wuxing)])
         else acc)
      else acc)"

definition score_element ::
  "wuxing_count \<Rightarrow> wuxing_count \<Rightarrow> wuxing \<Rightarrow> int \<times> (wuxing \<times> wuxing) list
     \<Rightarrow> int \<times> (wuxing \<times> wuxing) list" where
  "score_element cur_wx sym_wx wx acc =
     (let current_strength = cur_wx wx;
          symbol_strength = sym_wx wx
      in if current_strength > symbol_strength
         then fold (score_target sym_wx wx) wuxing_list acc
         else acc)"

definition signal_strength_loop ::
  "wuxing_count \<Rightarrow> wuxing_count \<Rightarrow> int \<times> (wuxing \<times> wuxing) list" where
  "signal_strength_loop cur_wx sym_wx = fold (score_element cur_wx sym_wx) wuxing_list (0, [])"

text \<open>The decision on the score: signal and confidence (\<open>/ 5.0\<close> is float division).\<close>

definition decide_signal :: "int \<Rightarrow> signal \<times> real" where
  "decide_signal signal_strength =
     (if signal_strength \<ge> 3 then (BUY, min (of_int signal_strength / 5) 1)
      else if signal_strength \<le> - 3 then (SELL, min (of_int \<bar>signal_strength\<bar> / 5) 1)
      else (HOLD, 1 / 2))"

text \<open>
  The part of \<open>get_trading_signal\<close> after the two strength vectors are known: the
  comparison of the vector of the decision date with the vector of the day before.
\<close>

definition signal_from_wuxing :: "bazi \<Rightarrow> wuxing_count \<Rightarrow> wuxing_count \<Rightarrow> signal_info" where
  "signal_from_wuxing cur_bazi cur_wx sym_wx =
     (let (signal_strength, signal_reason) = signal_strength_loop cur_wx sym_wx;
          (sig, conf) = decide_signal signal_strength
      in \<lparr>signal = sig, confidence = conf, strength = signal_strength,
          reason = signal_reason, current_bazi = cur_bazi,
          current_wuxing = cur_wx, symbol_wuxing = sym_wx\<rparr>)"

text \<open>
  \<open>get_trading_signal\<close>; the symbol and the price data are arguments the source never
  reads. An index error of the calculator and the overflow of the date subtraction
  propagate as exceptions.
\<close>

definition get_trading_signal ::
  "string \<Rightarrow> datetime \<Rightarrow> 'p \<Rightarrow> error + signal_info" where
  "get_trading_signal symbol date price_data =
     (case calculate_bazi date of
        None \<Rightarrow> Inl IndexError
      | Some cur_bazi \<Rightarrow>
          (case minus_one_day date of
             None \<Rightarrow> Inl OverflowError
           | Some yesterday \<Rightarrow>
               (case calculate_bazi yesterday of
                  None \<Rightarrow> Inl IndexError
                | Some symbol_bazi \<Rightarrow>
                    Inr (signal_from_wuxing cur_bazi
                          (analyze_wuxing_strength cur_bazi)
                          (analyze_wuxing_strength symbol_bazi)))))"

section \<open>The backtest (class BacktestingEngine)\<close>

text \<open>
  Numbers. Cash and prices are floats in the source; the model computes with them as
  real numbers, so the rounding and the overflow of sums and products of money are
  outside it. The quotient that gives the share count of a purchase is the exception:
  it is computed in double precision (see \<open>float_quotient\<close> below). What a float
  operation does where no real number is its result is kept: a numpy division by zero
  yields an infinity or a NaN without raising, and \<open>int()\<close> of such a value raises. The
  values of the two diagnostic series (period returns, per-date accumulator) can be
  such non-numbers and have the type \<open>pyfloat\<close>.
\<close>

datatype pyfloat = Fin real | PInf | NInf | NaN

definition np_div :: "real \<Rightarrow> real \<Rightarrow> pyfloat" where
  "np_div a b =
     (if b \<noteq> 0 then Fin (a / b) else if a > 0 then PInf else if a < 0 then NInf else NaN)"

fun fl_add :: "pyfloat \<Rightarrow> pyfloat \<Rightarrow> pyfloat" where
  "fl_add (Fin a) (Fin b) = Fin (a + b)"
| "fl_add NaN _ = NaN"
| "fl_add _ NaN = NaN"
| "fl_add PInf NInf = NaN"
| "fl_add NInf PInf = NaN"
| "fl_add PInf _ = PInf"
| "fl_add _ PInf = PInf"
| "fl_add NInf _ = NInf"
| "fl_add _ NInf = NInf"

fun fl_neg :: "pyfloat \<Rightarrow> pyfloat" where
  "fl_neg (Fin a) = Fin (- a)"
| "fl_neg PInf = NInf"
| "fl_neg NInf = PInf"
| "fl_neg NaN = NaN"

definition fl_sub :: "pyfloat \<Rightarrow> pyfloat \<Rightarrow> pyfloat" where
  "fl_sub a b = fl_add a (fl_neg b)"

fun fl_mul :: "pyfloat \<Rightarrow> pyfloat \<Rightarrow> pyfloat" where
  "fl_mul (Fin a) (Fin b) = Fin (a * b)"
| "fl_mul NaN _ = NaN"
| "fl_mul _ NaN = NaN"
| "fl_mul (Fin a) PInf = (if a > 0 then PInf else if a < 0 then NInf else NaN)"
| "fl_mul (Fin a) NInf = (if a > 0 then NInf else if a < 0 then PInf else NaN)"
| "fl_mul PInf (Fin b) = (if b > 0 then PInf else if b < 0 then NInf else NaN)"
| "fl_mul NInf (Fin b) = (if b > 0 then NInf else if b < 0 then PInf else NaN)"
| "fl_mul PInf PInf = PInf"
| "fl_mul NInf NInf = PInf"
| "fl_mul PInf NInf = NInf"
| "fl_mul NInf PInf = NInf"

fun fl_div :: "pyfloat \<Rightarrow> pyfloat \<Rightarrow> pyfloat" where
  "fl_div (Fin a) (Fin b) = np_div a b"
| "fl_div NaN _ = NaN"
| "fl_div _ NaN = NaN"
| "fl_div (Fin a) PInf = Fin 0"
| "fl_div (Fin a) NInf = Fin 0"
| "fl_div PInf (Fin b) = (if b \<ge> 0 then PInf else NInf)"
| "fl_div NInf (Fin b) = (if b \<ge> 0 then NInf else PInf)"
| "fl_div _ _ = NaN"

text \<open>
  The share count of a purchase is the one place where the rounding of a float decides
  an integer, so the quotient it is taken from is computed as the program computes it:
  in IEEE binary64 arithmetic, every operation rounded to the nearest double, ties to
  even. \<open>round64\<close> rounds a real number: \<open>binade\<close> is the power of two at or below
  its magnitude (not below \<open>2^-1022\<close>, where the subnormal numbers start), the spacing
  of the doubles there is \<open>binade / 2^52\<close>, and a result of magnitude \<open>2^1024\<close> or more
  is an infinity (\<open>up_left\<close> counts the doublings that remain below the magnitude).
\<close>

definition round_even :: "real \<Rightarrow> int" where
  "round_even r =
     (let f = \<lfloor>r\<rfloor>; d = r - of_int f
      in if d < 1 / 2 then f else if 1 / 2 < d then f + 1 else if even f then f else f + 1)"

fun up_pw :: "nat \<Rightarrow> real \<Rightarrow> real \<Rightarrow> real" where
  "up_pw 0 x pw = pw"
| "up_pw (Suc k) x pw = (if 2 * pw \<le> x then up_pw k x (2 * pw) else pw)"

fun down_pw :: "nat \<Rightarrow> real \<Rightarrow> real \<Rightarrow> real" where
  "down_pw 0 x pw = pw"
| "down_pw (Suc k) x pw = (if x < pw then down_pw k x (pw / 2) else pw)"

definition binade :: "real \<Rightarrow> real" where
  "binade x = (if 1 \<le> x then up_pw 1024 x 1 else down_pw 1022 x 1)"

fun up_left :: "nat \<Rightarrow> real \<Rightarrow> real \<Rightarrow> nat" where
  "up_left 0 x pw = 0"
| "up_left (Suc k) x pw = (if 2 * pw \<le> x then up_left k x (2 * pw) else Suc k)"

definition round64 :: "real \<Rightarrow> pyfloat" where
  "round64 x =
     (if x = 0 then Fin 0
      else (let ulp = binade \<bar>x\<bar> / 2 ^ 52;
                y = ulp * of_int (round_even (x / ulp))
            in if 1 \<le> \<bar>y\<bar> \<and> up_left 1024 \<bar>y\<bar> 1 = 0
               then (if 0 < x then PInf else NInf) else Fin y))"

fun round_fl :: "pyfloat \<Rightarrow> pyfloat" where
  "round_fl (Fin x) = round64 x"
| "round_fl v = v"

definition mul64 :: "pyfloat \<Rightarrow> pyfloat \<Rightarrow> pyfloat" where
  "mul64 a b = round_fl (fl_mul a b)"

definition div64 :: "pyfloat \<Rightarrow> pyfloat \<Rightarrow> pyfloat" where
  "div64 a b = round_fl (fl_div a b)"

text \<open>
  \<open>current_capital * confidence * 0.1 / current_price\<close>, evaluated from left to right
  on the doubles of the three values and of the literal \<open>0.1\<close>.
\<close>

definition float_quotient :: "real \<Rightarrow> real \<Rightarrow> real \<Rightarrow> pyfloat" where
  "float_quotient capital conf price =
     div64 (mul64 (mul64 (round64 capital) (round64 conf)) (round64 (1 / 10)))
       (round64 price)"

text \<open>\<open>int(x)\<close> truncates towards zero; infinities and NaN raise.\<close>

definition py_int :: "real \<Rightarrow> int" where
  "py_int x = (if 0 \<le> x then \<lfloor>x\<rfloor> else \<lceil>x\<rceil>)"

fun float_to_int :: "pyfloat \<Rightarrow> error + int" where
  "float_to_int (Fin x) = Inr (py_int x)"
| "float_to_int PInf = Inl OverflowError"
| "float_to_int NInf = Inl OverflowError"
| "float_to_int NaN = Inl ValueError"

text \<open>
  Data. A calendar date is the triple (year, month, day), ordered lexicographically as
  Python orders dates. A price frame is the list of its rows, each row the date of its
  index entry and its close price; the lookup takes the first row of a date, as
  \<open>.iloc[0]\<close> does. \<open>data_dict\<close> maps symbols to frames, listed in insertion order.
\<close>

type_synonym date = "int \<times> int \<times> int"

type_synonym frame = "(date \<times> real) list"

type_synonym data_dict = "(string \<times> frame) list"

record position =
  shares :: int
  entry_price :: real
  entry_date :: date

datatype action = Buy | Sell

record trade =
  trade_date :: date
  trade_symbol :: string
  trade_action :: action
  trade_shares :: int
  trade_price :: real
  trade_confidence :: real

text \<open>
  The state of the loop of \<open>run_backtest\<close>: the locals \<open>current_capital\<close>, \<open>positions\<close>
  (a dict in insertion order) and the per-date accumulator (the local \<open>daily_returns\<close>,
  here \<open>daily_acc\<close>), and the lists of the \<open>results\<close> dict.
\<close>

record sim_state =
  current_capital :: real
  positions :: "(string \<times> position) list"
  daily_acc :: pyfloat
  portfolio_value :: "real list"
  returns :: "pyfloat list"
  trades :: "trade list"
  daily_returns :: "pyfloat list"
  dates :: "date list"

type_synonym strategy = "string \<Rightarrow> datetime \<Rightarrow> frame \<Rightarrow> error + signal_info"

text \<open>The BUY branch, entered when the signal is BUY and the symbol has no position.\<close>

definition buy_branch ::
  "signal_info \<Rightarrow> string \<Rightarrow> date \<Rightarrow> real \<Rightarrow> sim_state \<Rightarrow> error + sim_state" where
  "buy_branch si symbol date current_price st =
     (case float_to_int
             (float_quotient (current_capital st) (confidence si) current_price) of
        Inl e \<Rightarrow> Inl e
      | Inr n \<Rightarrow>
          if n > 0 then
            Inr (st\<lparr>positions := positions st @
                       [(symbol, \<lparr>shares = n, entry_price = current_price,
                                  entry_date = date\<rparr>)],
                     current_capital := current_capital st - of_int n * current_price,
                     trades := trades st @
                       [\<lparr>trade_date = date, trade_symbol = symbol, trade_action = Buy,
                         trade_shares = n, trade_price = current_price,
                         trade_confidence = confidence si\<rparr>]\<rparr>)
          else Inr st)"

text \<open>The SELL branch, entered when the signal is SELL and the symbol has the position.\<close>

definition sell_branch ::
  "signal_info \<Rightarrow> string \<Rightarrow> date \<Rightarrow> real \<Rightarrow> position \<Rightarrow> sim_state \<Rightarrow> sim_state" where
  "sell_branch si symbol date current_price pos st =
     st\<lparr>current_capital := current_capital st + of_int (shares pos) * current_price,
        daily_acc := fl_add (daily_acc st)
                       (np_div (current_price - entry_price pos) (entry_price pos)),
        trades := trades st @
          [\<lparr>trade_date = date, trade_symbol = symbol, trade_action = Sell,
            trade_shares = shares pos, trade_price = current_price,
            trade_confidence = confidence si\<rparr>],
        positions := filter (\<lambda>(k, v). k \<noteq> symbol) (positions st)\<rparr>"

text \<open>The last step for a symbol: a position still open adds its unrealised return.\<close>

definition update_holding :: "string \<Rightarrow> real \<Rightarrow> sim_state \<Rightarrow> sim_state" where
  "update_holding symbol current_price st =
     (case map_of (positions st) symbol of
        None \<Rightarrow> st
      | Some pos \<Rightarrow>
          st\<lparr>daily_acc := fl_add (daily_acc st)
                            (np_div (current_price - entry_price pos) (entry_price pos))\<rparr>)"

definition execute_signal ::
  "signal_info \<Rightarrow> string \<Rightarrow> date \<Rightarrow> real \<Rightarrow> sim_state \<Rightarrow> error + sim_state" where
  "execute_signal si symbol date current_price st =
     (case (if signal si = BUY \<and> map_of (positions st) symbol = None
            then buy_branch si symbol date current_price st
            else (case map_of (positions st) symbol of
                    Some pos \<Rightarrow>
                      if signal si = SELL
                      then Inr (sell_branch si symbol date current_price pos st)
                      else Inr st
                  | None \<Rightarrow> Inr st)) of
        Inl e \<Rightarrow> Inl e
      | Inr st' \<Rightarrow> Inr (update_holding symbol current_price st'))"

text \<open>
  The body of the loop over the symbols: a symbol without data, or without a row on
  the date, is passed over (\<open>continue\<close>).
\<close>

definition date_obj :: "date \<Rightarrow> datetime" where
  "date_obj d = (case d of (y, m, dd) \<Rightarrow>
     \<lparr>dt_year = y, dt_month = m, dt_day = dd, dt_hour = 0\<rparr>)"

definition process_symbol ::
  "strategy \<Rightarrow> data_dict \<Rightarrow> date \<Rightarrow> string \<Rightarrow> sim_state \<Rightarrow> error + sim_state" where
  "process_symbol strat dd date symbol st =
     (case map_of dd symbol of
        None \<Rightarrow> Inr st
      | Some data \<Rightarrow>
          (case map_of data date of
             None \<Rightarrow> Inr st
           | Some current_price \<Rightarrow>
               (case strat symbol (date_obj date) data of
                  Inl e \<Rightarrow> Inl e
                | Inr si \<Rightarrow> execute_signal si symbol date current_price st)))"

fun process_symbols ::
  "strategy \<Rightarrow> data_dict \<Rightarrow> date \<Rightarrow> string list \<Rightarrow> sim_state \<Rightarrow> error + sim_state" where
  "process_symbols strat dd date [] st = Inr st"
| "process_symbols strat dd date (symbol # rest) st =
     (case process_symbol strat dd date symbol st of
        Inl e \<Rightarrow> Inl e
      | Inr st' \<Rightarrow> process_symbols strat dd date rest st')"

text \<open>
  The mark-to-market sum over the open positions: a position whose symbol has no row on
  the date is left out; \<open>data_dict[sym]\<close> raises KeyError for a symbol without data.
\<close>

fun total_position_value :: "data_dict \<Rightarrow> date \<Rightarrow> (string \<times> position) list \<Rightarrow> error + real" where
  "total_position_value dd date [] = Inr 0"
| "total_position_value dd date ((symbol, pos) # rest) =
     (case map_of dd symbol of
        None \<Rightarrow> Inl KeyError
      | Some data \<Rightarrow>
          (case total_position_value dd date rest of
             Inl e \<Rightarrow> Inl e
           | Inr v \<Rightarrow>
               (case map_of data date of
                  None \<Rightarrow> Inr v
                | Some close_price \<Rightarrow> Inr (of_int (shares pos) * close_price + v))))"

text \<open>
  The end of a date: the portfolio value and the period return are appended. The
  return divides by the previous portfolio value. Before the first purchase all values
  involved are Python numbers (the initial capital is taken to be one), and a zero
  divisor raises ZeroDivisionError; afterwards they are numpy floats and the division
  yields an infinity or NaN. The source's test \<open>len(...) > 1\<close> is made after the append.
\<close>

definition period_return :: "sim_state \<Rightarrow> real \<Rightarrow> error + pyfloat" where
  "period_return st pv =
     (case portfolio_value st of
        [] \<Rightarrow> Inr (Fin 0)
      | _ \<Rightarrow>
          (let prev = last (portfolio_value st)
           in if prev = 0 \<and> trades st = [] then Inl ZeroDivisionError
              else Inr (np_div (pv - prev) prev)))"

definition finish_date :: "data_dict \<Rightarrow> date \<Rightarrow> sim_state \<Rightarrow> error + sim_state" where
  "finish_date dd date st =
     (case total_position_value dd date (positions st) of
        Inl e \<Rightarrow> Inl e
      | Inr total_position \<Rightarrow>
          (let pv = current_capital st + total_position
           in case period_return st pv of
                Inl e \<Rightarrow> Inl e
              | Inr r \<Rightarrow>
                  Inr (st\<lparr>portfolio_value := portfolio_value st @ [pv],
                          returns := returns st @ [r],
                          daily_returns := daily_returns st @ [daily_acc st],
                          dates := dates st @ [date]\<rparr>)))"

definition process_date ::
  "strategy \<Rightarrow> data_dict \<Rightarrow> string list \<Rightarrow> date \<Rightarrow> sim_state \<Rightarrow> error + sim_state" where
  "process_date strat dd symbols date st =
     (case process_symbols strat dd date symbols (st\<lparr>daily_acc := Fin 0\<rparr>) of
        Inl e \<Rightarrow> Inl e
      | Inr st' \<Rightarrow> finish_date dd date st')"

fun process_dates ::
  "strategy \<Rightarrow> data_dict \<Rightarrow> string list \<Rightarrow> date list \<Rightarrow> sim_state \<Rightarrow> error + sim_state" where
  "process_dates strat dd symbols [] st = Inr st"
| "process_dates strat dd symbols (date # rest) st =
     (case process_date strat dd symbols date st of
        Inl e \<Rightarrow> Inl e
      | Inr st' \<Rightarrow> process_dates strat dd symbols rest st')"

definition all_dates :: "data_dict \<Rightarrow> date list" where
  "all_dates dd = sort (remdups (concat (map (\<lambda>(symbol, data). map fst data) dd)))"

definition initial_state :: "real \<Rightarrow> sim_state" where
  "initial_state initial_capital =
     \<lparr>current_capital = initial_capital, positions = [], daily_acc = Fin 0,
      portfolio_value = [initial_capital], returns = [Fin 0], trades = [],
      daily_returns = [], dates = []\<rparr>"

text \<open>
  \<open>run_backtest\<close>, from the fetched \<open>data_dict\<close> on (fetching the data is not part of
  the model). Without data the source returns a dict with the single key \<open>error\<close>
  (\<open>NoData\<close>); otherwise the final state is the \<open>results\<close> dict. An exception is \<open>Inl\<close>.
  The strategy is a parameter; the engine's own strategy is \<open>get_trading_signal\<close>.
\<close>

datatype outcome = NoData | Results sim_state

definition run_backtest_with ::
  "strategy \<Rightarrow> real \<Rightarrow> string list \<Rightarrow> data_dict \<Rightarrow> error + outcome" where
  "run_backtest_with strat initial_capital symbols dd =
     (if dd = [] then Inr NoData
      else (case process_dates strat dd symbols (all_dates dd) (initial_state initial_capital) of
              Inl e \<Rightarrow> Inl e
            | Inr st \<Rightarrow> Inr (Results st)))"

definition run_backtest :: "real \<Rightarrow> string list \<Rightarrow> data_dict \<Rightarrow> error + outcome" where
  "run_backtest = run_backtest_with get_trading_signal"

section \<open>The performance metrics (calculate_metrics)\<close>

text \<open>
  \<open>calculate_metrics\<close> works on numpy arrays, whose arithmetic never raises. The
  statistics are values of \<open>pyfloat\<close>, computed with the operations on \<open>pyfloat\<close>
  above, which follow the IEEE rules for infinities and NaN on top of real arithmetic.
\<close>

text \<open>The comparison \<open>x > 0\<close>: false for NaN.\<close>

fun fl_pos :: "pyfloat \<Rightarrow> bool" where
  "fl_pos (Fin a) = (a > 0)"
| "fl_pos PInf = True"
| "fl_pos _ = False"

fun is_fin :: "pyfloat \<Rightarrow> bool" where
  "is_fin (Fin a) = True"
| "is_fin _ = False"

fun fin_val :: "pyfloat \<Rightarrow> real" where
  "fin_val (Fin a) = a"
| "fin_val _ = 0"

text \<open>
  \<open>np.std\<close>: the population standard deviation; NaN for an empty array and for an
  array with an entry that is not finite.
\<close>

definition np_std :: "pyfloat list \<Rightarrow> pyfloat" where
  "np_std xs =
     (if xs = [] \<or> \<not> list_all is_fin xs then NaN
      else (let vs = map fin_val xs;
                n = real (length vs);
                mean = sum_list vs / n
            in Fin (sqrt (sum_list (map (\<lambda>v. (v - mean)\<^sup>2) vs) / n))))"

text \<open>
  The power \<open>base ** e\<close> for a finite exponent \<open>e > 0\<close> (here \<open>365 / days\<close>): a negative
  base has a power only for an integral exponent.
\<close>

definition np_power :: "pyfloat \<Rightarrow> real \<Rightarrow> pyfloat" where
  "np_power base e =
     (case base of
        NaN \<Rightarrow> NaN
      | PInf \<Rightarrow> PInf
      | NInf \<Rightarrow> (if of_int \<lfloor>e\<rfloor> = e \<and> odd \<lfloor>e\<rfloor> then NInf else PInf)
      | Fin b \<Rightarrow>
          (if b > 0 then Fin (b powr e)
           else if b = 0 then Fin 0
           else if of_int \<lfloor>e\<rfloor> = e then Fin (b ^ nat \<lfloor>e\<rfloor>)
           else NaN))"

text \<open>\<open>np.maximum.accumulate\<close>: the running maximum.\<close>

fun running_max :: "real \<Rightarrow> real list \<Rightarrow> real list" where
  "running_max m [] = []"
| "running_max m (x # xs) = max m x # running_max (max m x) xs"

definition maximum_accumulate :: "real list \<Rightarrow> real list" where
  "maximum_accumulate xs = (case xs of [] \<Rightarrow> [] | x # rest \<Rightarrow> x # running_max x rest)"

text \<open>\<open>np.min\<close> of a non-empty array: NaN if an entry is NaN.\<close>

fun fl_min2 :: "pyfloat \<Rightarrow> pyfloat \<Rightarrow> pyfloat" where
  "fl_min2 NaN _ = NaN"
| "fl_min2 _ NaN = NaN"
| "fl_min2 NInf _ = NInf"
| "fl_min2 _ NInf = NInf"
| "fl_min2 PInf b = b"
| "fl_min2 a PInf = a"
| "fl_min2 (Fin a) (Fin b) = Fin (min a b)"

definition np_min :: "pyfloat list \<Rightarrow> pyfloat" where
  "np_min xs = (case xs of [] \<Rightarrow> NaN | x # rest \<Rightarrow> fold fl_min2 rest x)"

text \<open>
  The keys of the metrics dict, in the order of the source: total return, annualised
  return, volatility, Sharpe ratio, maximal drawdown, win rate, number of trades.
\<close>

datatype metric_key =
  TotalReturn | AnnualReturn | Volatility | SharpeRatio | MaxDrawdown | WinRate | TradeCount

text \<open>
  \<open>calculate_metrics\<close>. The argument is what \<open>run_backtest\<close> returned; the only guard is
  \<open>not results.get('portfolio_value')\<close>, true for the error dict and for an empty list.
  The integers of the source (the defaults 0, the number of trades) are the
  corresponding numbers.
\<close>

definition metrics_of :: "sim_state \<Rightarrow> (metric_key \<rightharpoonup> pyfloat)" where
  "metrics_of results =
     (let portfolio_values = portfolio_value results;
          rets = tl (returns results);
          total_return = np_div (last portfolio_values - hd portfolio_values)
                           (hd portfolio_values);
          days = length portfolio_values;
          annual_return = fl_sub (np_power (fl_add (Fin 1) total_return) (365 / real days))
                            (Fin 1);
          volatility = fl_mul (np_std rets) (Fin (sqrt 252));
          risk_free_rate = 3 / 100;
          sharpe_ratio = (if fl_pos volatility
                          then fl_div (fl_sub annual_return (Fin risk_free_rate)) volatility
                          else Fin 0);
          peak = maximum_accumulate portfolio_values;
          drawdown = map (\<lambda>(v, p). np_div (v - p) p) (zip portfolio_values peak);
          max_drawdown = np_min drawdown;
          winning_trades = length (filter fl_pos rets);
          win_rate = (if rets \<noteq> [] then Fin (real winning_trades / real (length rets))
                      else Fin 0)
      in [TotalReturn \<mapsto> total_return, AnnualReturn \<mapsto> annual_return,
          Volatility \<mapsto> volatility, SharpeRatio \<mapsto> sharpe_ratio,
          MaxDrawdown \<mapsto> max_drawdown, WinRate \<mapsto> win_rate,
          TradeCount \<mapsto> Fin (real (length (trades results)))])"

definition calculate_metrics :: "outcome \<Rightarrow> (metric_key \<rightharpoonup> pyfloat)" where
  "calculate_metrics res =
     (case res of
        NoData \<Rightarrow> Map.empty
      | Results results \<Rightarrow>
          if portfolio_value results = [] then Map.empty else metrics_of results)"

section \<open>Scenarios and auxiliary notions\<close>

text \<open>
  A strategy that returns a fixed signal with a fixed confidence, whatever the date:
  the way a scenario forces a decision. The other fields of its answer are blank.
\<close>

definition blank_signal_info :: signal_info where
  "blank_signal_info =
     \<lparr>signal = HOLD, confidence = 1 / 2, strength = 0, reason = [],
      current_bazi = \<lparr>year_tg = Jia, year_dz = Zi, month_tg = Jia, month_dz = Zi,
                      day_tg = Jia, day_dz = Zi, hour_tg = Jia, hour_dz = Zi\<rparr>,
      current_wuxing = (\<lambda>_. 0), symbol_wuxing = (\<lambda>_. 0)\<rparr>"

definition forced_signal :: "signal \<Rightarrow> real \<Rightarrow> strategy" where
  "forced_signal sg conf =
     (\<lambda>symbol date data. Inr (blank_signal_info\<lparr>signal := sg, confidence := conf\<rparr>))"

text \<open>
  The states the loop of \<open>run_backtest\<close> can be in: the initial state, and every state
  obtained from one of them by the reset of the accumulator at the start of a date, by
  the step for one symbol, or by the end of a date. The dates and symbols are arbitrary,
  so every state of every run is among them.
\<close>

inductive reachable :: "strategy \<Rightarrow> data_dict \<Rightarrow> real \<Rightarrow> sim_state \<Rightarrow> bool"
  for strat :: strategy and dd :: data_dict and initial_capital :: real where
  start: "reachable strat dd initial_capital (initial_state initial_capital)"
| new_date: "reachable strat dd initial_capital st \<Longrightarrow>
     reachable strat dd initial_capital (st\<lparr>daily_acc := Fin 0\<rparr>)"
| symbol_step: "reachable strat dd initial_capital st \<Longrightarrow>
     process_symbol strat dd date symbol st = Inr st' \<Longrightarrow>
     reachable strat dd initial_capital st'"
| date_end: "reachable strat dd initial_capital st \<Longrightarrow>
     finish_date dd date st = Inr st' \<Longrightarrow>
     reachable strat dd initial_capital st'"

text \<open>
  A symbol is inert on a date when its step cannot trade there: it has no data, or no
  row on the date, or the strategy answers HOLD for it.
\<close>

definition inert :: "strategy \<Rightarrow> data_dict \<Rightarrow> date \<Rightarrow> string \<Rightarrow> bool" where
  "inert strat dd date symbol =
     (case map_of dd symbol of
        None \<Rightarrow> True
      | Some data \<Rightarrow>
          (case map_of data date of
             None \<Rightarrow> True
           | Some current_price \<Rightarrow>
               (case strat symbol (date_obj date) data of
                  Inl e \<Rightarrow> False
                | Inr si \<Rightarrow> signal si = HOLD)))"

text \<open>What the step of an inert symbol does to the state, and the value it adds.\<close>

definition add_daily :: "pyfloat \<Rightarrow> sim_state \<Rightarrow> sim_state" where
  "add_daily v st = st\<lparr>daily_acc := fl_add (daily_acc st) v\<rparr>"

definition hold_step :: "data_dict \<Rightarrow> date \<Rightarrow> string \<Rightarrow> sim_state \<Rightarrow> sim_state" where
  "hold_step dd date b st =
     (case map_of dd b of
        None \<Rightarrow> st
      | Some data \<Rightarrow>
          (case map_of data date of
             None \<Rightarrow> st
           | Some q \<Rightarrow> update_holding b q st))"

definition hold_val ::
  "data_dict \<Rightarrow> date \<Rightarrow> string \<Rightarrow> position option \<Rightarrow> pyfloat option" where
  "hold_val dd date b held =
     (case map_of dd b of
        None \<Rightarrow> None
      | Some data \<Rightarrow>
          (case map_of data date of
             None \<Rightarrow> None
           | Some q \<Rightarrow>
               (case held of
                  None \<Rightarrow> None
                | Some pos \<Rightarrow> Some (np_div (q - entry_price pos) (entry_price pos)))))"

text \<open>The step for one symbol on a result that may already be an exception.\<close>

definition kstep ::
  "strategy \<Rightarrow> data_dict \<Rightarrow> date \<Rightarrow> string \<Rightarrow> error + sim_state \<Rightarrow> error + sim_state" where
  "kstep strat dd date x r =
     (case r of Inl e \<Rightarrow> Inl e | Inr st \<Rightarrow> process_symbol strat dd date x st)"

text \<open>The equity curve and the trade log of a finished run.\<close>

definition equity_and_trades :: "error + outcome \<Rightarrow> (real list \<times> trade list) option" where
  "equity_and_trades r =
     (case r of Inr (Results st) \<Rightarrow> Some (portfolio_value st, trades st) | _ \<Rightarrow> None)"

text \<open>
  Price data of the scenarios. On 1 January 1986 the engine's own strategy answers BUY
  (score 3, confidence 3/5); on the other dates used here it answers HOLD.
\<close>

definition one_symbol_data :: data_dict where
  "one_symbol_data =
     [(''X'', [((2024, 3, 15), 100), ((2024, 3, 16), 110), ((2024, 3, 17), 90)])]"

definition held_state :: sim_state where
  "held_state =
     (initial_state 100000)
       \<lparr>positions :=
          [(''X'', \<lparr>shares = 50, entry_price = 100, entry_date = (2024, 3, 15)\<rparr>)],
        current_capital := 95000,
        trades := [\<lparr>trade_date = (2024, 3, 15), trade_symbol = ''X'', trade_action = Buy,
                    trade_shares = 50, trade_price = 100, trade_confidence = 1 / 2\<rparr>]\<rparr>"

definition two_symbol_data :: data_dict where
  "two_symbol_data =
     [(''A'', [((1986, 1, 1), 100), ((1986, 1, 2), 110)]),
      (''B'', [((1986, 1, 1), 50), ((1986, 1, 2), 50)])]"

definition staggered_data :: data_dict where
  "staggered_data =
     [(''A'', [((1986, 1, 1), 100), ((1986, 1, 2), 110)]),
      (''B'', [((1986, 1, 2), 50), ((1986, 1, 3), 55)])]"

definition gap_data :: data_dict where
  "gap_data =
     [(''A'', [((2024, 3, 15), 100), ((2024, 3, 18), 120)]),
      (''B'', [((2024, 3, 15), 40), ((2024, 3, 19), 44)])]"

definition gap_state :: sim_state where
  "gap_state =
     (initial_state 100000)
       \<lparr>positions :=
          [(''A'', \<lparr>shares = 10, entry_price = 100, entry_date = (2024, 3, 15)\<rparr>),
           (''B'', \<lparr>shares = 25, entry_price = 40, entry_date = (2024, 3, 15)\<rparr>)],
        current_capital := 98000\<rparr>"

text \<open>The sum of the five counts of a strength vector.\<close>

definition total_count :: "wuxing_count \<Rightarrow> int" where
  "total_count c = (\<Sum>e\<leftarrow>wuxing_list. c e)"

text \<open>
  Bounds for one rounding: the relative error in the normal range, the absolute error
  below it, and the smallest normal number.
\<close>

definition eps64 :: real where
  "eps64 = 1 / 2 ^ 53"

definition eta64 :: real where
  "eta64 = 1 / 2 ^ 1075"

definition low64 :: real where
  "low64 = 1 / 2 ^ 1022"



definition spring_day :: datetime where
  "spring_day = \<lparr>dt_year = 2024, dt_month = 3, dt_day = 15, dt_hour = 0\<rparr>"

section \<open>The calculator: strength vectors and relations\<close>

lemma py_index_tiangan: "\<exists>s. py_index tiangan (x mod 10) = Some s"
  by (simp add: py_index_def tiangan_def)

lemma py_index_dizhi: "\<exists>s. py_index dizhi (x mod 12) = Some s"
  by (simp add: py_index_def dizhi_def)

lemma get_tiangan_dizhi_total: "\<exists>p. get_tiangan_dizhi y = Some p"
proof -
  obtain a where a: "py_index tiangan (((y - 1900) mod 60) mod 10) = Some a"
    using py_index_tiangan by blast
  obtain b where b: "py_index dizhi (((y - 1900) mod 60) mod 12) = Some b"
    using py_index_dizhi by blast
  show ?thesis by (simp add: get_tiangan_dizhi_def a b)
qed

lemma calculate_bazi_total: "\<exists>b. calculate_bazi t = Some b"
proof -
  obtain p where p: "get_tiangan_dizhi (dt_year t) = Some p"
    using get_tiangan_dizhi_total by blast
  obtain a1 where a1: "py_index tiangan ((dt_month t - 1) mod 10) = Some a1"
    using py_index_tiangan by blast
  obtain b1 where b1: "py_index dizhi ((dt_month t - 1) mod 12) = Some b1"
    using py_index_dizhi by blast
  obtain a2 where a2: "py_index tiangan ((dt_day t - 1) mod 10) = Some a2"
    using py_index_tiangan by blast
  obtain b2 where b2: "py_index dizhi ((dt_day t - 1) mod 12) = Some b2"
    using py_index_dizhi by blast
  obtain a3 where a3: "py_index tiangan ((dt_hour t div 2) mod 10) = Some a3"
    using py_index_tiangan by blast
  obtain b3 where b3: "py_index dizhi ((dt_hour t div 2) mod 12) = Some b3"
    using py_index_dizhi by blast
  show ?thesis by (cases p) (simp add: calculate_bazi_def p a1 b1 a2 b2 a3 b3)
qed

lemma total_count_upd: "total_count (c(w := c w + 1)) = total_count c + 1"
  by (cases w) (simp_all add: total_count_def wuxing_list_def)

lemma wuxing_tiangan_some: "\<exists>e. wuxing_tiangan s = Some e"
  by (cases s) simp_all

lemma wuxing_dizhi_some: "\<exists>e. wuxing_dizhi s = Some e"
  by (cases s) simp_all

lemma count_one_tiangan: "total_count (count_one (wuxing_tiangan s) c) = total_count c + 1"
  using wuxing_tiangan_some[of s] by (auto simp: count_one_def total_count_upd)

lemma count_one_dizhi: "total_count (count_one (wuxing_dizhi s) c) = total_count c + 1"
  using wuxing_dizhi_some[of s] by (auto simp: count_one_def total_count_upd)

lemma count_one_nonneg: "(\<forall>e. 0 \<le> c e) \<Longrightarrow> 0 \<le> count_one w c e"
  by (cases w) (auto simp: count_one_def)

lemma analyze_total: "total_count (analyze_wuxing_strength b) = 8"
  by (simp add: analyze_wuxing_strength_def count_one_tiangan count_one_dizhi
      total_count_def[of "\<lambda>_. 0"] wuxing_list_def)

lemma analyze_nonneg: "0 \<le> analyze_wuxing_strength b e"
  by (simp add: analyze_wuxing_strength_def count_one_nonneg)

text \<open>
  Claim C7. For every timestamp (the calendar-valid ones among them) the calculator
  returns a code, no list index is out of range, and the strength vector of that code has
  non-negative counts whose sum over the five elements is exactly 8.
\<close>

theorem strength_vector_sum:
  "\<exists>b. calculate_bazi t = Some b \<and>
     (\<forall>e. 0 \<le> analyze_wuxing_strength b e) \<and>
     (\<Sum>e\<leftarrow>wuxing_list. analyze_wuxing_strength b e) = 8"
  using calculate_bazi_total[of t] analyze_total analyze_nonneg
  by (auto simp: total_count_def)

theorem strength_vector_sum_witness:
  "\<exists>b. calculate_bazi spring_day = Some b \<and>
     (\<Sum>e\<leftarrow>wuxing_list. analyze_wuxing_strength b e) = 8"
  using strength_vector_sum[of spring_day] by blast

text \<open>
  Claim C8. For all elements a and b: a generates b exactly when b is generated by a,
  a overcomes b exactly when b is overcome by a, and every element is the same as
  itself.
\<close>

theorem relationship_inverse:
  "(get_wuxing_relationship a b = Sheng \<longleftrightarrow> get_wuxing_relationship b a = BeiSheng) \<and>
   (get_wuxing_relationship a b = Ke \<longleftrightarrow> get_wuxing_relationship b a = BeiKe) \<and>
   get_wuxing_relationship a a = Tong"
  by (cases a; cases b) (simp_all add: get_wuxing_relationship_def)

theorem relationship_inverse_witness:
  "get_wuxing_relationship Mu Huo = Sheng \<and> get_wuxing_relationship Huo Mu = BeiSheng \<and>
   get_wuxing_relationship Mu Tu = Ke \<and> get_wuxing_relationship Tu Mu = BeiKe \<and>
   get_wuxing_relationship Jin Jin = Tong"
  using relationship_inverse[of Mu Huo] relationship_inverse[of Mu Tu]
    relationship_inverse[of Jin Jin]
  by (simp add: get_wuxing_relationship_def)

section \<open>The signal: score and decision\<close>

lemma score_target_fst: "fst acc \<le> fst (score_target s w t acc)"
  by (simp add: score_target_def)

lemma fold_score_target_fst: "fst acc \<le> fst (fold (score_target s w) ts acc)"
proof (induction ts arbitrary: acc)
  case Nil
  show ?case by simp
next
  case (Cons t ts)
  have "fst acc \<le> fst (score_target s w t acc)" by (rule score_target_fst)
  also have "\<dots> \<le> fst (fold (score_target s w) ts (score_target s w t acc))"
    by (rule Cons.IH)
  finally show ?case by simp
qed

lemma score_element_fst: "fst acc \<le> fst (score_element c s w acc)"
  by (simp add: score_element_def Let_def fold_score_target_fst)

lemma fold_score_element_fst: "fst acc \<le> fst (fold (score_element c s) ws acc)"
proof (induction ws arbitrary: acc)
  case Nil
  show ?case by simp
next
  case (Cons w ws)
  have "fst acc \<le> fst (score_element c s w acc)" by (rule score_element_fst)
  also have "\<dots> \<le> fst (fold (score_element c s) ws (score_element c s w acc))"
    by (rule Cons.IH)
  finally show ?case by simp
qed

lemma loop_nonneg: "0 \<le> fst (signal_strength_loop c s)"
  using fold_score_element_fst[of "(0, [])" c s wuxing_list]
  by (simp add: signal_strength_loop_def)

lemma strength_eq: "strength (signal_from_wuxing b c s) = fst (signal_strength_loop c s)"
  by (simp add: signal_from_wuxing_def split: prod.splits)

lemma signal_eq:
  "signal (signal_from_wuxing b c s) = fst (decide_signal (fst (signal_strength_loop c s)))"
  by (simp add: signal_from_wuxing_def split: prod.splits)

lemma conf_eq:
  "confidence (signal_from_wuxing b c s) =
     snd (decide_signal (fst (signal_strength_loop c s)))"
  by (simp add: signal_from_wuxing_def split: prod.splits)

lemma decide_conf_le: "snd (decide_signal n) \<le> 1"
  by (simp add: decide_signal_def)

lemma decide_conf_ge: "0 \<le> snd (decide_signal n)"
  by (simp add: decide_signal_def)

lemma from_wuxing_not_sell: "signal (signal_from_wuxing b c s) \<noteq> SELL"
  using loop_nonneg[of c s] by (simp add: signal_eq decide_signal_def)

lemma get_trading_signal_props:
  "get_trading_signal sy d p = Inr si \<Longrightarrow>
     signal si \<noteq> SELL \<and> 0 \<le> confidence si \<and> confidence si \<le> 1"
  by (auto simp: get_trading_signal_def from_wuxing_not_sell conf_eq decide_conf_le
      decide_conf_ge split: option.splits)

text \<open>
  Claim C3. For every pair of strength vectors the score is non-negative, and the
  signal is never SELL.
\<close>

theorem score_nonneg_never_sell:
  "0 \<le> strength (signal_from_wuxing b c s) \<and> signal (signal_from_wuxing b c s) \<noteq> SELL"
  using loop_nonneg[of c s] by (simp add: strength_eq signal_eq decide_signal_def)

theorem score_nonneg_never_sell_witness:
  "signal (signal_from_wuxing (current_bazi blank_signal_info)
      (\<lambda>e. if e = Mu then 8 else 0) (\<lambda>e. if e = Huo then 8 else 0)) \<noteq> SELL"
  using score_nonneg_never_sell[of "current_bazi blank_signal_info"
      "\<lambda>e. if e = Mu then 8 else 0" "\<lambda>e. if e = Huo then 8 else 0"]
  by simp

text \<open>
  Claim C6. The signal and the confidence returned for two strength vectors are the
  decision on their score; the decision on a score sc is BUY with confidence
  min(sc/5, 1) when sc >= 3, SELL with confidence min(|sc|/5, 1) when sc <= -3, and
  HOLD with confidence 0.5 otherwise.
\<close>

theorem decision_rule:
  "strength (signal_from_wuxing b c s) = fst (signal_strength_loop c s) \<and>
   (signal (signal_from_wuxing b c s), confidence (signal_from_wuxing b c s)) =
      decide_signal (strength (signal_from_wuxing b c s)) \<and>
   (3 \<le> sc \<longrightarrow> decide_signal sc = (BUY, min (of_int sc / 5) 1)) \<and>
   (sc \<le> - 3 \<longrightarrow> decide_signal sc = (SELL, min (of_int \<bar>sc\<bar> / 5) 1)) \<and>
   (- 3 < sc \<and> sc < 3 \<longrightarrow> decide_signal sc = (HOLD, 1 / 2))"
  by (simp add: signal_from_wuxing_def decide_signal_def split: prod.splits)

theorem decision_rule_witness:
  "decide_signal 3 = (BUY, 3 / 5) \<and> decide_signal 7 = (BUY, 1) \<and>
   decide_signal (- 4) = (SELL, 4 / 5) \<and> decide_signal (- 9) = (SELL, 1) \<and>
   decide_signal 2 = (HOLD, 1 / 2)"
  using decision_rule[of "current_bazi blank_signal_info" "\<lambda>_. 0" "\<lambda>_. 0" 3]
    decision_rule[of "current_bazi blank_signal_info" "\<lambda>_. 0" "\<lambda>_. 0" 7]
    decision_rule[of "current_bazi blank_signal_info" "\<lambda>_. 0" "\<lambda>_. 0" "- 4"]
    decision_rule[of "current_bazi blank_signal_info" "\<lambda>_. 0" "\<lambda>_. 0" "- 9"]
    decision_rule[of "current_bazi blank_signal_info" "\<lambda>_. 0" "\<lambda>_. 0" 2]
  by simp

section \<open>The backtest: one symbol on one date\<close>





lemma py_int_pos_floor: "0 < py_int x \<Longrightarrow> py_int x = \<lfloor>x\<rfloor> \<and> 0 < x"
proof -
  assume h: "0 < py_int x"
  have "0 \<le> x"
  proof (rule ccontr)
    assume n: "\<not> 0 \<le> x"
    then have "x \<le> 0" by simp
    then have "\<lceil>x\<rceil> \<le> 0" by (simp add: ceiling_le_zero)
    with n h show False by (simp add: py_int_def)
  qed
  then have e: "py_int x = \<lfloor>x\<rfloor>" by (simp add: py_int_def)
  with h have "0 < \<lfloor>x\<rfloor>" by simp
  then have "0 < x" by linarith
  with e show ?thesis by simp
qed

lemma map_of_filter_neq: "map_of (filter (\<lambda>(k, v). k \<noteq> a) ps) a = None"
  by (induction ps) auto

lemma map_of_filter_other:
  "b \<noteq> a \<Longrightarrow> map_of (filter (\<lambda>(k, v). k \<noteq> a) ps) b = map_of ps b"
  by (induction ps) auto


lemma map_of_snoc_other: "b \<noteq> a \<Longrightarrow> map_of (ps @ [(a, v)]) b = map_of ps b"
  by (simp add: map_add_def split: option.splits)

subsection \<open>The rounding of the share quotient\<close>

lemma eps64_bounds: "0 < eps64" "eps64 \<le> 1 / 1000"
  by (simp_all add: eps64_def)

lemma eta64_bounds: "0 < eta64" "eta64 \<le> 1 / 1000"
  by (simp_all add: eta64_def)

lemma round_even_err: "\<bar>of_int (round_even r) - r\<bar> \<le> 1 / 2"
  unfolding round_even_def Let_def by (auto; linarith)

lemma round_even_nonneg: "0 \<le> r \<Longrightarrow> 0 \<le> round_even r"
  unfolding round_even_def Let_def by (auto; linarith)

lemma round_even_nonpos: "r \<le> 0 \<Longrightarrow> round_even r \<le> 0"
  unfolding round_even_def Let_def by (auto; linarith)

lemma up_pw_bounds: "pw \<le> x \<Longrightarrow> 0 < pw \<Longrightarrow> pw \<le> up_pw k x pw \<and> up_pw k x pw \<le> x"
proof (induction k arbitrary: pw)
  case 0
  then show ?case by simp
next
  case (Suc k)
  show ?case
  proof (cases "2 * pw \<le> x")
    case True
    with Suc.IH[of "2 * pw"] Suc.prems show ?thesis by auto
  next
    case False
    with Suc.prems show ?thesis by simp
  qed
qed

lemma down_pw_bounds:
  "0 < pw \<Longrightarrow> pw / 2 ^ k \<le> down_pw k x pw \<and>
     (down_pw k x pw \<le> x \<or> down_pw k x pw = pw / 2 ^ k)"
proof (induction k arbitrary: pw)
  case 0
  then show ?case by simp
next
  case (Suc k)
  show ?case
  proof (cases "x < pw")
    case True
    from Suc.IH[of "pw / 2"] Suc.prems True show ?thesis by simp
  next
    case False
    have "pw / 2 ^ Suc k \<le> pw" using Suc.prems
      by (simp add: divide_le_eq_1_pos pos_divide_le_eq)
         (metis (no_types) less_eq_real_def mult_le_cancel_left1 one_le_numeral one_le_power power_Suc)
    with False show ?thesis by simp
  qed
qed

lemma low64_pos: "0 < low64"
  by (simp add: low64_def)

lemma low64_eta: "low64 / 2 ^ 53 = eta64" "low64 / 2 ^ 52 = 2 * eta64"
  by (simp_all add: low64_def eta64_def)

lemma binade_bounds:
  "0 < x \<Longrightarrow> low64 \<le> binade x \<and> (binade x \<le> x \<or> binade x = low64)"
proof (cases "1 \<le> x")
  case True
  from up_pw_bounds[of 1 x 1024] True have "1 \<le> up_pw 1024 x 1 \<and> up_pw 1024 x 1 \<le> x" by simp
  moreover have "low64 \<le> 1" by (simp add: low64_def)
  ultimately show ?thesis using True by (simp add: binade_def)
next
  case False
  from down_pw_bounds[of 1 1022 x] show ?thesis using False
    by (simp add: binade_def low64_def)
qed

lemma round64_Fin:
  assumes "round64 x = Fin y" "x \<noteq> 0"
  shows "y = binade \<bar>x\<bar> / 2 ^ 52 * of_int (round_even (x / (binade \<bar>x\<bar> / 2 ^ 52)))"
  using assms by (auto simp: round64_def Let_def split: if_splits)

lemma round64_zero: "round64 0 = Fin 0"
  by (simp add: round64_def)

lemma round64_dist:
  assumes "round64 x = Fin y" and False: "x \<noteq> 0"
  shows "\<bar>y - x\<bar> \<le> binade \<bar>x\<bar> / 2 ^ 53"
proof -
  define ulp where "ulp = binade \<bar>x\<bar> / 2 ^ 52"
  from False have "0 < \<bar>x\<bar>" by simp
  from binade_bounds[OF this] low64_pos have bp: "0 < binade \<bar>x\<bar>" by linarith
  then have up: "0 < ulp" by (simp add: ulp_def)
  from round64_Fin[OF assms] have y: "y = ulp * of_int (round_even (x / ulp))"
    by (simp add: ulp_def)
  have "\<bar>of_int (round_even (x / ulp)) - x / ulp\<bar> \<le> 1 / 2" by (rule round_even_err)
  then have "ulp * \<bar>of_int (round_even (x / ulp)) - x / ulp\<bar> \<le> ulp * (1 / 2)"
    using up by (intro mult_left_mono) auto
  moreover have "ulp * \<bar>of_int (round_even (x / ulp)) - x / ulp\<bar> = \<bar>y - x\<bar>"
  proof -
    have "ulp * \<bar>of_int (round_even (x / ulp)) - x / ulp\<bar>
        = \<bar>ulp * (of_int (round_even (x / ulp)) - x / ulp)\<bar>"
      using up by (simp add: abs_mult)
    also have "ulp * (of_int (round_even (x / ulp)) - x / ulp) = y - x"
      using up by (simp add: y right_diff_distrib)
    finally show ?thesis .
  qed
  moreover have "ulp * (1 / 2) = binade \<bar>x\<bar> / 2 ^ 53" by (simp add: ulp_def)
  ultimately show ?thesis by simp
qed

text \<open>The error of one rounding: relative in the normal range, absolute below it.\<close>

lemma round64_err:
  assumes "round64 x = Fin y"
  shows "\<bar>y - x\<bar> \<le> eps64 * \<bar>x\<bar> \<or> \<bar>y - x\<bar> \<le> eta64"
proof (cases "x = 0")
  case True
  with assms have "y = 0" by (simp add: round64_def)
  with True show ?thesis by simp
next
  case False
  then have "0 < \<bar>x\<bar>" by simp
  from binade_bounds[OF this] consider "binade \<bar>x\<bar> \<le> \<bar>x\<bar>" | "binade \<bar>x\<bar> = low64" by blast
  then show ?thesis
  proof cases
    case 1
    then have "binade \<bar>x\<bar> / 2 ^ 53 \<le> \<bar>x\<bar> / 2 ^ 53" by (simp add: divide_right_mono)
    with round64_dist[OF assms False] have "\<bar>y - x\<bar> \<le> \<bar>x\<bar> / 2 ^ 53" by linarith
    then show ?thesis by (simp add: eps64_def)
  next
    case 2
    with round64_dist[OF assms False] low64_eta(1) show ?thesis by simp
  qed
qed

lemma round64_nonneg:
  assumes "round64 x = Fin y" "0 \<le> x"
  shows "0 \<le> y \<and> (0 < y \<longrightarrow> 2 * eta64 \<le> y)"
proof (cases "x = 0")
  case True
  with assms have "y = 0" by (simp add: round64_def)
  then show ?thesis by simp
next
  case False
  define ulp where "ulp = binade \<bar>x\<bar> / 2 ^ 52"
  define k where "k = round_even (x / ulp)"
  from False have "0 < \<bar>x\<bar>" by simp
  from binade_bounds[OF this] have lb: "low64 \<le> binade \<bar>x\<bar>" by simp
  then have "low64 / 2 ^ 52 \<le> ulp" by (simp add: ulp_def divide_right_mono)
  then have ul: "2 * eta64 \<le> ulp" using low64_eta(2) by simp
  then have up: "0 < ulp" using eta64_bounds(1) by linarith
  from round64_Fin[OF assms(1) False] have y: "y = ulp * of_int k"
    by (simp add: ulp_def k_def)
  have "0 \<le> x / ulp" using assms(2) up by simp
  then have k0: "0 \<le> k" unfolding k_def by (rule round_even_nonneg)
  then have y0: "0 \<le> y" using up by (simp add: y)
  have "0 < y \<longrightarrow> 2 * eta64 \<le> y"
  proof
    assume "0 < y"
    then have "k \<noteq> 0" by (auto simp: y)
    with k0 have "1 \<le> k" by simp
    then have "(1::real) \<le> of_int k" by simp
    then have "ulp * 1 \<le> ulp * of_int k" using up by (intro mult_left_mono) auto
    with ul show "2 * eta64 \<le> y" by (simp add: y)
  qed
  with y0 show ?thesis by simp
qed

lemma round64_nonpos:
  assumes "round64 x = Fin y" "x \<le> 0"
  shows "y \<le> 0"
proof (cases "x = 0")
  case True
  with assms have "y = 0" by (simp add: round64_def)
  then show ?thesis by simp
next
  case False
  define ulp where "ulp = binade \<bar>x\<bar> / 2 ^ 52"
  from False have "0 < \<bar>x\<bar>" by simp
  from binade_bounds[OF this] low64_pos have "0 < binade \<bar>x\<bar>" by linarith
  then have up: "0 < ulp" by (simp add: ulp_def)
  from round64_Fin[OF assms(1) False] have y: "y = ulp * of_int (round_even (x / ulp))"
    by (simp add: ulp_def)
  have "x / ulp \<le> 0" using assms(2) up by (simp add: divide_nonpos_pos)
  then have "round_even (x / ulp) \<le> 0" by (rule round_even_nonpos)
  then have "(of_int (round_even (x / ulp)) :: real) \<le> 0" by simp
  then show ?thesis using up by (simp add: y mult_nonneg_nonpos)
qed

text \<open>Consequences for a non-negative argument.\<close>

lemma round64_upper:
  assumes "round64 x = Fin y" "0 \<le> x"
  shows "y \<le> x + eps64 * x + eta64"
proof -
  from round64_err[OF assms(1)] assms(2) have "\<bar>y - x\<bar> \<le> eps64 * x \<or> \<bar>y - x\<bar> \<le> eta64"
    by simp
  moreover have "0 \<le> eps64 * x" using assms(2) eps64_bounds(1) by simp
  ultimately show ?thesis using eta64_bounds(1) by linarith
qed

lemma round64_lower_pos:
  assumes "round64 x = Fin y" "0 < y"
  shows "0 < x \<and> x \<le> 3 / 2 * y"
proof -
  have xp: "0 < x"
  proof (rule ccontr)
    assume "\<not> 0 < x"
    then have "x \<le> 0" by simp
    from round64_nonpos[OF assms(1) this] assms(2) show False by simp
  qed
  then have "0 \<le> x" by simp
  from round64_nonneg[OF assms(1) this] assms(2) have ym: "2 * eta64 \<le> y" by simp
  from round64_err[OF assms(1)] xp have "\<bar>y - x\<bar> \<le> eps64 * x \<or> \<bar>y - x\<bar> \<le> eta64"
    by simp
  then have "x \<le> 3 / 2 * y"
  proof
    assume "\<bar>y - x\<bar> \<le> eps64 * x"
    moreover have "eps64 * x \<le> 1 / 1000 * x" using eps64_bounds(2) xp
      by (intro mult_right_mono) auto
    ultimately show ?thesis by linarith
  next
    assume "\<bar>y - x\<bar> \<le> eta64"
    with ym show ?thesis by linarith
  qed
  with xp show ?thesis by simp
qed

lemma tenth64: "round64 (1 / 10) = Fin (3602879701896397 / 36028797018963968)"
  by code_simp

lemma mul64_Fin:
  "mul64 a b = Fin y \<Longrightarrow> \<exists>av bv. a = Fin av \<and> b = Fin bv \<and> round64 (av * bv) = Fin y"
  by (cases a; cases b) (auto simp: mul64_def split: if_splits)

lemma div64_Fin:
  "div64 a b = Fin y \<Longrightarrow> y \<noteq> 0 \<Longrightarrow>
     \<exists>av bv. a = Fin av \<and> b = Fin bv \<and> bv \<noteq> 0 \<and> round64 (av / bv) = Fin y"
  by (cases a; cases b) (auto simp: div64_def np_div_def round64_zero split: if_splits)

lemma float_to_int_Inr: "float_to_int q = Inr n \<Longrightarrow> \<exists>v. q = Fin v \<and> n = py_int v"
  by (cases q) auto

lemma quotient_cost:
  assumes ok: "float_to_int (float_quotient c f p) = Inr n" and npos: "0 < n"
    and c0: "0 \<le> c" and f0: "0 \<le> f" and f1: "f \<le> 1"
  shows "of_int n * p \<le> c"
proof -
  note e = eps64_bounds and m = eta64_bounds
  from float_to_int_Inr[OF ok] obtain q where
    q: "float_quotient c f p = Fin q" and nq: "n = py_int q" by blast
  from npos nq py_int_pos_floor[of q] have nfl: "n = \<lfloor>q\<rfloor>" and qpos: "0 < q" by auto
  from npos nfl have q1: "1 \<le> q" by linarith
  have nle: "of_int n \<le> q" using nfl by simp
  from qpos have qnz: "q \<noteq> 0" by simp
  from div64_Fin[OF q[unfolded float_quotient_def] qnz] obtain t p' where
    tq: "mul64 (mul64 (round64 c) (round64 f)) (round64 (1 / 10)) = Fin t"
    and pq: "round64 p = Fin p'" and p'nz: "p' \<noteq> 0"
    and qq: "round64 (t / p') = Fin q" by blast
  from mul64_Fin[OF tq] obtain u k where
    uq: "mul64 (round64 c) (round64 f) = Fin u" and kq: "round64 (1 / 10) = Fin k"
    and tt: "round64 (u * k) = Fin t" by blast
  from mul64_Fin[OF uq] obtain c' f' where
    cq: "round64 c = Fin c'" and fq: "round64 f = Fin f'"
    and uu: "round64 (c' * f') = Fin u" by blast
  from kq tenth64 have k: "k = 3602879701896397 / 36028797018963968" by simp
  then have k0: "0 < k" and k1: "k \<le> 1001 / 10000" by simp_all
  \<comment> \<open>the operands\<close>
  from round64_nonneg[OF cq c0] have c'0: "0 \<le> c'" by simp
  from round64_nonneg[OF fq f0] have f'0: "0 \<le> f'" by simp
  have c'u: "c' \<le> 101 / 100 * c + eta64"
  proof -
    have "eps64 * c \<le> 1 / 1000 * c" using e(2) c0 by (intro mult_right_mono) auto
    with round64_upper[OF cq c0] show ?thesis using c0 by linarith
  qed
  have f'u: "f' \<le> 101 / 100"
  proof -
    have "eps64 * f \<le> 1 / 1000 * f" using e(2) f0 by (intro mult_right_mono) auto
    with round64_upper[OF fq f0] f1 m(2) show ?thesis by linarith
  qed
  \<comment> \<open>the two products\<close>
  have cf0: "0 \<le> c' * f'" using c'0 f'0 by simp
  from round64_nonneg[OF uu cf0] have u0: "0 \<le> u" by simp
  have uu': "u \<le> 104 / 100 * c + 21 / 10 * eta64"
  proof -
    have a: "c' * f' \<le> c' * (101 / 100)" using f'u c'0 by (intro mult_left_mono) auto
    have "eps64 * (c' * f') \<le> 1 / 1000 * (c' * f')" using e(2) cf0
      by (intro mult_right_mono) auto
    with round64_upper[OF uu cf0] have "u \<le> 1001 / 1000 * (c' * f') + eta64" by linarith
    with a have "u \<le> 1001 / 1000 * (c' * (101 / 100)) + eta64" by linarith
    with c'u m(1) c0 show ?thesis by linarith
  qed
  have uk0: "0 \<le> u * k" using u0 k0 by simp
  from round64_nonneg[OF tt uk0] have t0: "0 \<le> t" and tmin: "0 < t \<longrightarrow> 2 * eta64 \<le> t"
    by simp_all
  have tu: "t \<le> 11 / 100 * c + 13 / 10 * eta64"
  proof -
    have a: "u * k \<le> u * (1001 / 10000)" using k1 u0 by (intro mult_left_mono) auto
    have "eps64 * (u * k) \<le> 1 / 1000 * (u * k)" using e(2) uk0
      by (intro mult_right_mono) auto
    with round64_upper[OF tt uk0] have "t \<le> 1001 / 1000 * (u * k) + eta64" by linarith
    with a have "t \<le> 1001 / 1000 * (u * (1001 / 10000)) + eta64" by linarith
    with uu' m(1) c0 show ?thesis by linarith
  qed
  \<comment> \<open>the quotient is positive, so are its operands\<close>
  from round64_lower_pos[OF qq qpos] have tp: "0 < t / p'" by simp
  have tpos: "0 < t"
  proof (rule ccontr)
    assume "\<not> 0 < t"
    with t0 have "t = 0" by simp
    with tp show False by simp
  qed
  with tp have p'pos: "0 < p'" by (simp add: zero_less_divide_iff)
  from tmin tpos have t2: "2 * eta64 \<le> t" by simp
  from round64_lower_pos[OF pq p'pos] have ppos: "0 < p" and pp': "p \<le> 3 / 2 * p'" by simp_all
  have tc: "t \<le> 32 / 100 * c" using tu t2 m(1) c0 by linarith
  \<comment> \<open>the cost\<close>
  have tp0: "0 \<le> t / p'" using tp by simp
  have qu: "q \<le> 1001 / 1000 * (t / p') + eta64"
  proof -
    have "eps64 * (t / p') \<le> 1 / 1000 * (t / p')" using e(2) tp0
      by (intro mult_right_mono) auto
    with round64_upper[OF qq tp0] show ?thesis by linarith
  qed
  have qp: "q * p' \<le> 1001 / 1000 * t + eta64 * p'"
  proof -
    from qu p'pos have "q * p' \<le> (1001 / 1000 * (t / p') + eta64) * p'"
      by (intro mult_right_mono) auto
    also have "\<dots> = 1001 / 1000 * t + eta64 * p'"
      using p'pos by (simp add: algebra_simps)
    finally show ?thesis .
  qed
  have p't: "p' \<le> 2 * t"
  proof -
    from q1 have "1 * p' \<le> q * p'" using p'pos by (intro mult_right_mono) auto
    with qp have a: "p' \<le> 1001 / 1000 * t + eta64 * p'" by simp
    have "eta64 * p' \<le> 1 / 1000 * p'" using m(2) p'pos by (intro mult_right_mono) auto
    with a tpos show ?thesis by linarith
  qed
  have qp2: "q * p' \<le> 102 / 100 * t"
  proof -
    have "eta64 * p' \<le> 1 / 1000 * p'" using m(2) p'pos by (intro mult_right_mono) auto
    with qp p't tpos show ?thesis by linarith
  qed
  have "of_int n * p \<le> q * p" using nle ppos by (intro mult_right_mono) auto
  also have "\<dots> \<le> q * (3 / 2 * p')" using pp' qpos by (intro mult_left_mono) auto
  also have "\<dots> = 3 / 2 * (q * p')" by simp
  also have "\<dots> \<le> 3 / 2 * (102 / 100 * t)" using qp2 by (intro mult_left_mono) auto
  also have "\<dots> \<le> c" using tc c0 by linarith
  finally show ?thesis .
qed


subsection \<open>The two trading rules\<close>




text \<open>
  Claim C5. A symbol with a price bar on the date, a SELL signal and an open position of
  s shares: the step succeeds, the cash grows by s times the close price, a SELL record
  with the share count s is appended, and the position is removed.
\<close>

theorem sell_rule:
  assumes bar: "map_of dd symbol = Some data" "map_of data date = Some price"
    and sig: "strat symbol (date_obj date) data = Inr si" "signal si = SELL"
    and held: "map_of (positions st) symbol = Some pos"
  shows "\<exists>st'. process_symbol strat dd date symbol st = Inr st' \<and>
     current_capital st' = current_capital st + of_int (shares pos) * price \<and>
     trades st' = trades st @
        [\<lparr>trade_date = date, trade_symbol = symbol, trade_action = Sell,
          trade_shares = shares pos, trade_price = price,
          trade_confidence = confidence si\<rparr>] \<and>
     positions st' = filter (\<lambda>(k, v). k \<noteq> symbol) (positions st) \<and>
     map_of (positions st') symbol = None"
  by (simp add: process_symbol_def bar sig held execute_signal_def sell_branch_def
      update_holding_def map_of_filter_neq)

theorem sell_rule_witness:
  "\<exists>st'. process_symbol (forced_signal SELL (4 / 5)) one_symbol_data (2024, 3, 16) ''X''
            held_state = Inr st' \<and>
     current_capital st' = 100500 \<and>
     map (\<lambda>t. (trade_action t, trade_shares t, trade_price t)) (trades st') =
        [(Buy, 50, 100), (Sell, 50, 110)] \<and>
     positions st' = []"
proof -
  have a: "map_of one_symbol_data ''X'' =
      Some [((2024, 3, 15), 100), ((2024, 3, 16), 110), ((2024, 3, 17), 90)]"
    by (simp add: one_symbol_data_def)
  have b: "map_of ([((2024, 3, 15), 100), ((2024, 3, 16), 110), ((2024, 3, 17), 90)] :: frame)
             (2024, 3, 16) = Some 110"
    by simp
  have c: "forced_signal SELL (4 / 5) ''X'' (date_obj (2024, 3, 16))
             [((2024, 3, 15), 100), ((2024, 3, 16), 110), ((2024, 3, 17), 90)]
           = Inr (blank_signal_info\<lparr>signal := SELL, confidence := 4 / 5\<rparr>)"
    by (simp add: forced_signal_def)
  have d: "signal (blank_signal_info\<lparr>signal := SELL, confidence := 4 / 5\<rparr>) = SELL"
    by simp
  have e: "map_of (positions held_state) ''X'' =
      Some \<lparr>shares = 50, entry_price = 100, entry_date = (2024, 3, 15)\<rparr>"
    by (simp add: held_state_def)
  show ?thesis
    using sell_rule[where strat = "forced_signal SELL (4 / 5)", OF a b c d e]
    by (auto simp: held_state_def initial_state_def)
qed

section \<open>The backtest: symbols without a price bar\<close>

lemma update_holding_positions [simp]: "positions (update_holding a p st) = positions st"
  by (simp add: update_holding_def split: option.splits)

lemma update_holding_cash [simp]:
  "current_capital (update_holding a p st) = current_capital st"
  by (simp add: update_holding_def split: option.splits)

lemma buy_branch_other:
  "buy_branch si a d p st = Inr st' \<Longrightarrow> b \<noteq> a \<Longrightarrow>
     map_of (positions st') b = map_of (positions st) b"
  by (auto simp: buy_branch_def map_of_snoc_other split: sum.splits if_splits
      simp del: map_of_append)

lemma execute_signal_other:
  "execute_signal si a d p st = Inr st' \<Longrightarrow> b \<noteq> a \<Longrightarrow>
     map_of (positions st') b = map_of (positions st) b"
  by (auto simp: execute_signal_def sell_branch_def map_of_filter_other
      split: sum.splits if_splits option.splits dest: buy_branch_other)

lemma process_symbol_other:
  "process_symbol strat dd date a st = Inr st' \<Longrightarrow> b \<noteq> a \<Longrightarrow>
     map_of (positions st') b = map_of (positions st) b"
  by (auto simp: process_symbol_def split: option.splits sum.splits
      dest: execute_signal_other)

lemma process_symbol_no_row:
  "map_of dd symbol = Some data \<Longrightarrow> map_of data date = None \<Longrightarrow>
     process_symbol strat dd date symbol st = Inr st"
  by (simp add: process_symbol_def)

lemma process_symbols_keep:
  assumes "map_of dd symbol = Some data" "map_of data date = None"
  shows "process_symbols strat dd date syms st = Inr st' \<Longrightarrow>
     map_of (positions st') symbol = map_of (positions st) symbol"
proof (induction syms arbitrary: st)
  case Nil
  then show ?case by simp
next
  case (Cons a syms)
  from Cons.prems obtain st1 where s1: "process_symbol strat dd date a st = Inr st1"
    and rest: "process_symbols strat dd date syms st1 = Inr st'"
    by (auto split: sum.splits)
  have "map_of (positions st1) symbol = map_of (positions st) symbol"
  proof (cases "a = symbol")
    case True
    with s1 assms show ?thesis by (simp add: process_symbol_no_row)
  next
    case False
    then have "symbol \<noteq> a" by simp
    then show ?thesis by (rule process_symbol_other[OF s1])
  qed
  with Cons.IH[OF rest] show ?case by simp
qed

lemma finish_date_positions:
  "finish_date dd date st = Inr st' \<Longrightarrow> positions st' = positions st"
  by (auto simp: finish_date_def Let_def split: sum.splits)

lemma finish_date_cash:
  "finish_date dd date st = Inr st' \<Longrightarrow> current_capital st' = current_capital st"
  by (auto simp: finish_date_def Let_def split: sum.splits)

lemma total_position_value_no_row:
  assumes "map_of dd symbol = Some data" "map_of data date = None"
  shows "total_position_value dd date ps =
     total_position_value dd date (filter (\<lambda>(k, v). k \<noteq> symbol) ps)"
  using assms by (induction ps) (auto split: option.splits sum.splits)

text \<open>
  Claim C9. A symbol that has data but no price bar on the date: its step returns the
  state as it is, without an exception; the mark-to-market sum of the date is the sum
  without the symbol's position; and after the whole date the symbol's position entry
  is what it was before.
\<close>

theorem missing_bar_skipped:
  assumes "map_of dd symbol = Some data" "map_of data date = None"
  shows "process_symbol strat dd date symbol st = Inr st \<and>
         total_position_value dd date ps =
           total_position_value dd date (filter (\<lambda>(k, v). k \<noteq> symbol) ps) \<and>
         (\<forall>st'. process_date strat dd symbols date st = Inr st' \<longrightarrow>
            map_of (positions st') symbol = map_of (positions st) symbol)"
proof (intro conjI allI impI)
  show "process_symbol strat dd date symbol st = Inr st"
    using assms by (rule process_symbol_no_row)
  show "total_position_value dd date ps =
           total_position_value dd date (filter (\<lambda>(k, v). k \<noteq> symbol) ps)"
    using assms by (rule total_position_value_no_row)
  fix st' assume "process_date strat dd symbols date st = Inr st'"
  then obtain st1 where
    a: "process_symbols strat dd date symbols (st\<lparr>daily_acc := Fin 0\<rparr>) = Inr st1"
    and b: "finish_date dd date st1 = Inr st'"
    by (auto simp: process_date_def split: sum.splits)
  from process_symbols_keep[OF assms a] finish_date_positions[OF b]
  show "map_of (positions st') symbol = map_of (positions st) symbol" by simp
qed

theorem missing_bar_skipped_witness:
  "process_symbol get_trading_signal gap_data (2024, 3, 18) ''B'' gap_state = Inr gap_state \<and>
   total_position_value gap_data (2024, 3, 18) (positions gap_state) = Inr 1200 \<and>
   (\<exists>st'. process_date get_trading_signal gap_data [''A'', ''B''] (2024, 3, 18) gap_state
            = Inr st' \<and>
      portfolio_value st' = [100000, 99200] \<and>
      map_of (positions st') ''B'' =
        Some \<lparr>shares = 25, entry_price = 40, entry_date = (2024, 3, 15)\<rparr>)"
proof -
  have a: "map_of gap_data ''B'' = Some [((2024, 3, 15), 40), ((2024, 3, 19), 44)]"
    by (simp add: gap_data_def)
  have b: "map_of ([((2024, 3, 15), 40), ((2024, 3, 19), 44)] :: frame) (2024, 3, 18) = None"
    by simp
  note m = missing_bar_skipped[where strat = get_trading_signal and st = gap_state
      and ps = "positions gap_state" and symbols = "[''A'', ''B'']", OF a b]
  have t: "total_position_value gap_data (2024, 3, 18)
             (filter (\<lambda>(k, v). k \<noteq> ''B'') (positions gap_state)) = Inr 1200"
    by (simp add: gap_data_def gap_state_def)
  have r: "\<not> isl (process_date get_trading_signal gap_data [''A'', ''B''] (2024, 3, 18)
                    gap_state)"
    by code_simp
  then obtain st' where
    st': "process_date get_trading_signal gap_data [''A'', ''B''] (2024, 3, 18) gap_state
            = Inr st'"
    by (cases "process_date get_trading_signal gap_data [''A'', ''B''] (2024, 3, 18) gap_state")
      auto
  have pv: "(case process_date get_trading_signal gap_data [''A'', ''B''] (2024, 3, 18)
                    gap_state of
               Inr s \<Rightarrow> portfolio_value s | Inl e \<Rightarrow> []) = [100000, 99200]"
    by code_simp
  have held: "map_of (positions gap_state) ''B'' =
      Some \<lparr>shares = 25, entry_price = 40, entry_date = (2024, 3, 15)\<rparr>"
    by (simp add: gap_state_def)
  from m st' t pv held show ?thesis by simp
qed

section \<open>The backtest: the cash balance\<close>

lemma buy_branch_cash:
  assumes c: "0 \<le> current_capital st" and conf: "0 \<le> confidence si" "confidence si \<le> 1"
    and b: "buy_branch si a d p st = Inr st'"
  shows "0 \<le> current_capital st'"
proof (cases "float_to_int (float_quotient (current_capital st) (confidence si) p)")
  case (Inl e)
  with b show ?thesis by (simp add: buy_branch_def)
next
  case (Inr n)
  show ?thesis
  proof (cases "0 < n")
    case True
    from b Inr True have st': "current_capital st' = current_capital st - of_int n * p"
      by (auto simp: buy_branch_def)
    from quotient_cost[OF Inr True c conf] st' show ?thesis by simp
  next
    case False
    with b Inr have "st' = st" by (auto simp: buy_branch_def)
    with c show ?thesis by simp
  qed
qed

lemma execute_signal_cash:
  assumes "0 \<le> current_capital st" "0 \<le> confidence si" "confidence si \<le> 1"
    "signal si \<noteq> SELL"
    and "execute_signal si a d p st = Inr st'"
  shows "0 \<le> current_capital st'"
  using assms
  by (auto simp: execute_signal_def split: sum.splits if_splits option.splits
      dest: buy_branch_cash)

lemma process_symbol_cash:
  assumes "0 \<le> current_capital st"
    and "process_symbol get_trading_signal dd date a st = Inr st'"
  shows "0 \<le> current_capital st'"
  using assms
  by (auto simp: process_symbol_def split: option.splits sum.splits
      dest!: get_trading_signal_props intro: execute_signal_cash)

lemma reachable_cash:
  "reachable get_trading_signal dd cap st \<Longrightarrow> 0 \<le> cap \<Longrightarrow> 0 \<le> current_capital st"
proof (induction rule: reachable.induct)
  case start
  then show ?case by (simp add: initial_state_def)
next
  case (new_date st)
  then show ?case by simp
next
  case (symbol_step st date symbol st')
  then show ?case using process_symbol_cash by blast
next
  case (date_end st date st')
  then show ?case by (simp add: finish_date_cash)
qed

lemma process_symbols_reachable:
  "process_symbols strat dd date syms st = Inr st' \<Longrightarrow> reachable strat dd cap st \<Longrightarrow>
     reachable strat dd cap st'"
proof (induction syms arbitrary: st)
  case Nil
  then show ?case by simp
next
  case (Cons a syms)
  from Cons.prems(1) obtain st1 where s1: "process_symbol strat dd date a st = Inr st1"
    and rest: "process_symbols strat dd date syms st1 = Inr st'"
    by (auto split: sum.splits)
  from reachable.symbol_step[OF Cons.prems(2) s1] Cons.IH[OF rest] show ?case by blast
qed

lemma process_date_reachable:
  assumes "process_date strat dd syms date st = Inr st'" "reachable strat dd cap st"
  shows "reachable strat dd cap st'"
proof -
  from assms(1) obtain st1 where
    a: "process_symbols strat dd date syms (st\<lparr>daily_acc := Fin 0\<rparr>) = Inr st1"
    and b: "finish_date dd date st1 = Inr st'"
    by (auto simp: process_date_def split: sum.splits)
  have "reachable strat dd cap (st\<lparr>daily_acc := Fin 0\<rparr>)"
    using assms(2) by (rule reachable.new_date)
  from process_symbols_reachable[OF a this] have "reachable strat dd cap st1" .
  then show ?thesis using b by (rule reachable.date_end)
qed

lemma process_dates_reachable:
  "process_dates strat dd syms ds st = Inr st' \<Longrightarrow> reachable strat dd cap st \<Longrightarrow>
     reachable strat dd cap st'"
proof (induction ds arbitrary: st)
  case Nil
  then show ?case by simp
next
  case (Cons d ds)
  from Cons.prems(1) obtain st1 where s1: "process_date strat dd syms d st = Inr st1"
    and rest: "process_dates strat dd syms ds st1 = Inr st'"
    by (auto split: sum.splits)
  from process_date_reachable[OF s1 Cons.prems(2)] Cons.IH[OF rest] show ?case by blast
qed

lemma run_reachable:
  "run_backtest_with strat cap syms dd = Inr (Results st) \<Longrightarrow> reachable strat dd cap st"
  by (auto simp: run_backtest_with_def split: if_splits sum.splits
      intro: process_dates_reachable reachable.start)

text \<open>
  Claim C10. In a run with the engine's own strategy that starts with a non-negative
  initial capital, the cash balance is non-negative in every state the loop reaches;
  the final state of every run is such a state.
\<close>

theorem cash_never_negative:
  assumes "0 \<le> initial_capital"
  shows "(reachable get_trading_signal dd initial_capital st \<longrightarrow> 0 \<le> current_capital st) \<and>
         (run_backtest initial_capital symbols dd = Inr (Results st) \<longrightarrow>
            reachable get_trading_signal dd initial_capital st)"
  using assms reachable_cash run_reachable by (auto simp: run_backtest_def)

theorem cash_never_negative_witness:
  "\<exists>st. run_backtest 100000 [''A'', ''B''] two_symbol_data = Inr (Results st) \<and>
     reachable get_trading_signal two_symbol_data 100000 st \<and>
     current_capital st = 88400 \<and> 0 \<le> current_capital st"
proof -
  have c: "(case run_backtest 100000 [''A'', ''B''] two_symbol_data of
              Inr (Results s) \<Rightarrow> Some (current_capital s) | _ \<Rightarrow> None) = Some 88400"
    by code_simp
  then obtain st where
    st: "run_backtest 100000 [''A'', ''B''] two_symbol_data = Inr (Results st)"
    and v: "current_capital st = 88400"
    by (auto split: sum.splits outcome.splits)
  have h: "(0::real) \<le> 100000" by simp
  from cash_never_negative[OF h, of two_symbol_data st "[''A'', ''B'']"] st v
  show ?thesis by simp
qed

section \<open>The backtest: the order of the symbols\<close>

lemma fl_add_right_comm: "fl_add (fl_add x v) w = fl_add (fl_add x w) v"
  by (cases x; cases v; cases w) simp_all

lemma buy_branch_add_daily:
  "buy_branch si a d p (add_daily v st) = map_sum id (add_daily v) (buy_branch si a d p st)"
  by (simp add: buy_branch_def add_daily_def split: sum.splits)

lemma update_holding_add_daily_comm:
  "update_holding a p (add_daily v st) = add_daily v (update_holding a p st)"
  by (simp add: update_holding_def add_daily_def fl_add_right_comm split: option.splits)

lemma sell_branch_add_daily:
  "sell_branch si a d p pos (add_daily v st) = add_daily v (sell_branch si a d p pos st)"
  by (simp add: sell_branch_def add_daily_def fl_add_right_comm)

lemma execute_signal_add_daily:
  "execute_signal si a d p (add_daily v st) =
     map_sum id (add_daily v) (execute_signal si a d p st)"
proof -
  have pos: "positions (add_daily v st) = positions st" by (simp add: add_daily_def)
  show ?thesis
    unfolding execute_signal_def pos
    by (auto simp: buy_branch_add_daily sell_branch_add_daily update_holding_add_daily_comm
        split: sum.splits option.splits)
qed

lemma process_symbol_add_daily:
  "process_symbol strat dd date a (add_daily v st) =
     map_sum id (add_daily v) (process_symbol strat dd date a st)"
  by (simp add: process_symbol_def execute_signal_add_daily split: option.splits sum.splits)

lemma execute_signal_hold:
  "signal si = HOLD \<Longrightarrow> execute_signal si b d q st = Inr (update_holding b q st)"
  by (simp add: execute_signal_def split: option.splits)

lemma inert_step:
  "inert strat dd date b \<Longrightarrow> process_symbol strat dd date b st = Inr (hold_step dd date b st)"
  by (auto simp: inert_def process_symbol_def hold_step_def execute_signal_hold
      split: option.splits sum.splits)

lemma hold_step_val:
  "hold_step dd date b st =
     (case hold_val dd date b (map_of (positions st) b) of
        None \<Rightarrow> st
      | Some v \<Rightarrow> add_daily v st)"
  by (simp add: hold_step_def hold_val_def update_holding_def add_daily_def
      split: option.splits)

lemma hold_step_comm:
  assumes "a \<noteq> b"
  shows "process_symbol strat dd date a (hold_step dd date b st) =
         map_sum id (hold_step dd date b) (process_symbol strat dd date a st)"
proof (cases "hold_val dd date b (map_of (positions st) b)")
  case None
  from assms have ba: "b \<noteq> a" by simp
  from None have l: "hold_step dd date b st = st" by (simp add: hold_step_val)
  show ?thesis
  proof (cases "process_symbol strat dd date a st")
    case (Inl e)
    then show ?thesis by (simp add: l)
  next
    case (Inr st')
    have "map_of (positions st') b = map_of (positions st) b"
      using ba by (rule process_symbol_other[OF Inr])
    with None have "hold_step dd date b st' = st'" by (simp add: hold_step_val)
    with Inr show ?thesis by (simp add: l)
  qed
next
  case (Some v)
  from assms have ba: "b \<noteq> a" by simp
  from Some have l: "hold_step dd date b st = add_daily v st" by (simp add: hold_step_val)
  show ?thesis
  proof (cases "process_symbol strat dd date a st")
    case (Inl e)
    then show ?thesis by (simp add: l process_symbol_add_daily)
  next
    case (Inr st')
    have "map_of (positions st') b = map_of (positions st) b"
      using ba by (rule process_symbol_other[OF Inr])
    with Some have "hold_step dd date b st' = add_daily v st'" by (simp add: hold_step_val)
    with Inr show ?thesis by (simp add: l process_symbol_add_daily)
  qed
qed

lemma fold_kstep_Inl: "fold (kstep strat dd date) xs (Inl e) = Inl e"
  by (induction xs) (simp_all add: kstep_def)

lemma process_symbols_fold:
  "process_symbols strat dd date xs st = fold (kstep strat dd date) xs (Inr st)"
proof (induction xs arbitrary: st)
  case Nil
  then show ?case by simp
next
  case (Cons x xs)
  show ?case
  proof (cases "process_symbol strat dd date x st")
    case (Inl e)
    then have "kstep strat dd date x (Inr st) = Inl e" by (simp add: kstep_def)
    with Inl show ?thesis by (simp add: fold_kstep_Inl)
  next
    case (Inr st')
    then have "kstep strat dd date x (Inr st) = Inr st'" by (simp add: kstep_def)
    with Inr show ?thesis by (simp add: Cons.IH)
  qed
qed

lemma kstep_comm_inert:
  assumes "a \<noteq> b" "inert strat dd date b"
  shows "kstep strat dd date a (kstep strat dd date b r) =
         kstep strat dd date b (kstep strat dd date a r)"
proof (cases r)
  case (Inl e)
  then show ?thesis by (simp add: kstep_def)
next
  case (Inr st)
  show ?thesis
    using Inr hold_step_comm[OF assms(1), of strat dd date st]
    by (cases "process_symbol strat dd date a st")
       (simp_all add: kstep_def inert_step[OF assms(2)])
qed

lemma kstep_comm:
  assumes "a = b \<or> inert strat dd date a \<or> inert strat dd date b"
  shows "kstep strat dd date a \<circ> kstep strat dd date b =
         kstep strat dd date b \<circ> kstep strat dd date a"
proof (rule ext)
  fix r
  show "(kstep strat dd date a \<circ> kstep strat dd date b) r =
        (kstep strat dd date b \<circ> kstep strat dd date a) r"
  proof (cases "a = b")
    case True
    then show ?thesis by simp
  next
    case False
    with assms consider "inert strat dd date b" | "inert strat dd date a" by blast
    then show ?thesis
    proof cases
      case 1
      show ?thesis unfolding comp_def by (rule kstep_comm_inert[OF False 1])
    next
      case 2
      from False have ba: "b \<noteq> a" by simp
      show ?thesis unfolding comp_def by (rule kstep_comm_inert[OF ba 2, symmetric])
    qed
  qed
qed

lemma process_symbols_permute:
  assumes "mset syms = mset syms'"
    and "\<forall>a\<in>set syms. \<forall>b\<in>set syms.
           a = b \<or> inert strat dd date a \<or> inert strat dd date b"
  shows "process_symbols strat dd date syms st = process_symbols strat dd date syms' st"
proof -
  have "fold (kstep strat dd date) syms = fold (kstep strat dd date) syms'"
    using assms by (intro fold_multiset_equiv kstep_comm) auto
  then show ?thesis by (simp add: process_symbols_fold)
qed

lemma process_date_permute:
  assumes "mset syms = mset syms'"
    and "\<forall>a\<in>set syms. \<forall>b\<in>set syms.
           a = b \<or> inert strat dd date a \<or> inert strat dd date b"
  shows "process_date strat dd syms date st = process_date strat dd syms' date st"
  by (simp add: process_date_def process_symbols_permute[OF assms])

lemma process_dates_permute:
  assumes "mset syms = mset syms'"
    and "\<forall>date\<in>set ds. \<forall>a\<in>set syms. \<forall>b\<in>set syms.
           a = b \<or> inert strat dd date a \<or> inert strat dd date b"
  shows "process_dates strat dd syms ds st = process_dates strat dd syms' ds st"
  using assms(2)
proof (induction ds arbitrary: st)
  case Nil
  then show ?case by simp
next
  case (Cons d ds)
  have h: "process_date strat dd syms d st = process_date strat dd syms' d st"
    using Cons.prems by (intro process_date_permute assms(1)) simp
  have t: "\<And>s. process_dates strat dd syms ds s = process_dates strat dd syms' ds s"
    using Cons.prems by (intro Cons.IH) simp
  show ?case
    by (cases "process_date strat dd syms' d st") (simp_all add: h t)
qed

text \<open>
  Claim C2, as amended. Processing the symbols in another order gives the same result of
  the run (equity curve and trade log included) when, on every date of the data, of any
  two different symbols at least one is inert: without data, without a row on the date,
  or with the signal HOLD. When two symbols trade on one date the result depends on the
  order, as the counterexample shows: the cash balance is shared.
\<close>

theorem symbol_order_irrelevant:
  assumes "mset symbols = mset symbols'"
    and "\<forall>date\<in>set (all_dates dd). \<forall>a\<in>set symbols. \<forall>b\<in>set symbols.
           a = b \<or> inert strat dd date a \<or> inert strat dd date b"
  shows "run_backtest_with strat initial_capital symbols dd =
         run_backtest_with strat initial_capital symbols' dd"
  by (simp add: run_backtest_with_def process_dates_permute[OF assms])

theorem symbol_order_irrelevant_witness:
  "run_backtest_with get_trading_signal 100000 [''A'', ''B''] staggered_data =
   run_backtest_with get_trading_signal 100000 [''B'', ''A''] staggered_data \<and>
   map_option (map trade_symbol \<circ> snd)
     (equity_and_trades
        (run_backtest_with get_trading_signal 100000 [''A'', ''B''] staggered_data))
     = Some [''A'']"
proof -
  have p1: "mset [''A'', ''B''] = mset [''B'', ''A'']" by simp
  have p2: "\<forall>date\<in>set (all_dates staggered_data).
      \<forall>a\<in>set [''A'', ''B'']. \<forall>b\<in>set [''A'', ''B''].
        a = b \<or> inert get_trading_signal staggered_data date a
          \<or> inert get_trading_signal staggered_data date b"
    by code_simp
  have p3: "map_option (map trade_symbol \<circ> snd)
     (equity_and_trades
        (run_backtest_with get_trading_signal 100000 [''A'', ''B''] staggered_data))
     = Some [''A'']"
    by code_simp
  from symbol_order_irrelevant[OF p1 p2] p3 show ?thesis by simp
qed

text \<open>
  The claim as stated fails: two symbols with a bar on 1 January 1986, when the signal
  is BUY. Processed as A, B the run buys 60 A and 112 B and the curve ends at 100600;
  processed as B, A it buys 120 B and 56 A and the curve ends at 100560.
\<close>

theorem symbol_order_counterexample:
  "equity_and_trades (run_backtest 100000 [''A'', ''B''] two_symbol_data) =
     Some ([100000, 100000, 100600],
       [\<lparr>trade_date = (1986, 1, 1), trade_symbol = ''A'', trade_action = Buy,
          trade_shares = 60, trade_price = 100, trade_confidence = 3 / 5\<rparr>,
        \<lparr>trade_date = (1986, 1, 1), trade_symbol = ''B'', trade_action = Buy,
          trade_shares = 112, trade_price = 50, trade_confidence = 3 / 5\<rparr>]) \<and>
   equity_and_trades (run_backtest 100000 [''B'', ''A''] two_symbol_data) =
     Some ([100000, 100000, 100560],
       [\<lparr>trade_date = (1986, 1, 1), trade_symbol = ''B'', trade_action = Buy,
          trade_shares = 120, trade_price = 50, trade_confidence = 3 / 5\<rparr>,
        \<lparr>trade_date = (1986, 1, 1), trade_symbol = ''A'', trade_action = Buy,
          trade_shares = 56, trade_price = 100, trade_confidence = 3 / 5\<rparr>])"
  by code_simp

section \<open>The metrics: the empty result\<close>

lemma metrics_of_nonempty: "metrics_of r \<noteq> Map.empty"
proof
  assume "metrics_of r = Map.empty"
  then have "metrics_of r TradeCount = None" by simp
  then show False by (simp add: metrics_of_def Let_def)
qed

lemma metrics_of_dom:
  "dom (metrics_of r) =
     {TotalReturn, AnnualReturn, Volatility, SharpeRatio, MaxDrawdown, WinRate, TradeCount}"
  by (auto simp: metrics_of_def Let_def)

lemma metrics_of_no_returns:
  "tl (returns r) = [] \<Longrightarrow>
     metrics_of r Volatility = Some NaN \<and> metrics_of r SharpeRatio = Some (Fin 0) \<and>
     metrics_of r WinRate = Some (Fin 0)"
  by (simp add: metrics_of_def Let_def np_std_def)

text \<open>
  Claim C4, as amended. The metrics mapping is empty exactly when the run returned the
  error result or the equity curve has no entry at all. For a curve with one entry or
  more the keys of the mapping are exactly the seven statistics, the trade count is the
  length of the trade log, and with an empty series of period returns (as for a curve
  of one entry) the volatility is NaN and the Sharpe ratio and the win rate are 0.
\<close>

theorem metrics_empty_iff:
  "(calculate_metrics res = Map.empty \<longleftrightarrow>
      (case res of NoData \<Rightarrow> True | Results r \<Rightarrow> portfolio_value r = [])) \<and>
   (case res of
      NoData \<Rightarrow> True
    | Results r \<Rightarrow>
        portfolio_value r \<noteq> [] \<longrightarrow>
          dom (calculate_metrics res) =
            {TotalReturn, AnnualReturn, Volatility, SharpeRatio, MaxDrawdown, WinRate,
             TradeCount} \<and>
          calculate_metrics res TradeCount = Some (Fin (real (length (trades r)))) \<and>
          (tl (returns r) = [] \<longrightarrow>
             calculate_metrics res Volatility = Some NaN \<and>
             calculate_metrics res SharpeRatio = Some (Fin 0) \<and>
             calculate_metrics res WinRate = Some (Fin 0)))"
proof (cases res)
  case NoData
  then show ?thesis by (simp add: calculate_metrics_def)
next
  case (Results r)
  have tc: "metrics_of r TradeCount = Some (Fin (real (length (trades r))))"
    by (simp add: metrics_of_def Let_def)
  show ?thesis
    using metrics_of_nonempty[of r] metrics_of_dom[of r] metrics_of_no_returns[of r] tc
    by (simp add: Results calculate_metrics_def)
qed

theorem metrics_empty_iff_witness:
  "calculate_metrics NoData = Map.empty \<and>
   calculate_metrics (Results ((initial_state 100000)\<lparr>portfolio_value := []\<rparr>)) = Map.empty \<and>
   calculate_metrics (Results (initial_state 100000)) \<noteq> Map.empty \<and>
   dom (calculate_metrics (Results (initial_state 100000))) =
     {TotalReturn, AnnualReturn, Volatility, SharpeRatio, MaxDrawdown, WinRate, TradeCount} \<and>
   calculate_metrics (Results (initial_state 100000)) Volatility = Some NaN"
  using metrics_empty_iff[of NoData]
    metrics_empty_iff[of "Results ((initial_state 100000)\<lparr>portfolio_value := []\<rparr>)"]
    metrics_empty_iff[of "Results (initial_state 100000)"]
  by (simp add: initial_state_def)

text \<open>
  The claim as stated fails for a curve with one entry, such as the seeded curve of a
  run before its first date: the mapping has the statistics, with NaN for the
  volatility of the empty return series.
\<close>

theorem metrics_one_entry_counterexample:
  "length (portfolio_value (initial_state 100000)) < 2 \<and>
   calculate_metrics (Results (initial_state 100000)) TradeCount = Some (Fin 0) \<and>
   calculate_metrics (Results (initial_state 100000)) TotalReturn = Some (Fin 0) \<and>
   calculate_metrics (Results (initial_state 100000)) Volatility = Some NaN \<and>
   calculate_metrics (Results (initial_state 100000)) WinRate = Some (Fin 0)"
  by (simp add: calculate_metrics_def metrics_of_def initial_state_def np_div_def
      np_std_def Let_def)

end
